theory Spec2Isabelle
  imports Main "HOL-Library.Multiset"
begin

section \<open>Data model of the internship tracker backend\<close>

text \<open>
  The backend is one Express server over a SQLite store. Every table is modelled as the
  list of its rows, in insertion order; a \<open>SELECT ... WHERE\<close> read with \<open>db.get\<close> is
  \<open>find\<close>, an \<open>UPDATE ... WHERE\<close> is \<open>map\<close> over the rows that match and a
  \<open>DELETE ... WHERE\<close> is \<open>filter\<close>. A column that some route may store \<open>NULL\<close> in is
  an option; the company of an opening and the two columns of a subscription are only
  ever written with a number, and are numbers. Statements are assumed to execute (the 500
  branches taken on a driver error are not modelled).
  Columns that no modelled route reads or writes (surrogate ids of join tables,
  \<open>created_at\<close> defaults of applications, profile columns of students and companies, the
  \<open>details_json\<close> text of an audit row) are left out.
\<close>

subsection \<open>JavaScript values of a request\<close>

text \<open>A text field of a JSON body: absent, \<open>null\<close>, or a string.\<close>

datatype jtext = Undefined | Null | Text string

text \<open>JavaScript truthiness of such a field: only a non-empty string is truthy.\<close>

fun truthy :: "jtext \<Rightarrow> bool" where
  "truthy (Text t) = (t \<noteq> [])"
| "truthy _ = False"

text \<open>The idiom \<open>x || null\<close>.\<close>

fun or_null :: "jtext \<Rightarrow> string option" where
  "or_null (Text t) = (if t = [] then None else Some t)"
| "or_null _ = None"

text \<open>The test \<open>typeof x !== 'undefined'\<close>.\<close>

fun defined :: "jtext \<Rightarrow> bool" where
  "defined Undefined = False"
| "defined _ = True"

text \<open>A numeric id that may be missing; \<open>0\<close>, \<open>null\<close> and \<open>undefined\<close> are falsy.\<close>

fun truthy_id :: "nat option \<Rightarrow> bool" where
  "truthy_id None = False"
| "truthy_id (Some n) = (n \<noteq> 0)"

subsection \<open>Identity, errors\<close>

text \<open>
  \<open>req.user\<close> as \<open>authenticateToken\<close> leaves it on the request: the account id, the role
  string and the linked student or company id. The handlers below take it as their first
  argument; \<open>authenticateToken\<close> itself is modelled with the routes that answer
  \<open>DELETE\<close> requests, where the claim depends on it.
\<close>

record user =
  userId :: nat
  role :: string
  studentId :: "nat option"
  companyId :: "nat option"

text \<open>An error reply: \<open>res.status(code).json({ error: message })\<close>.\<close>

datatype error = HttpError nat string

subsection \<open>Tables\<close>

record subscription =
  sub_student :: nat
  sub_company :: nat

record application =
  app_id :: nat
  app_student :: "nat option"
  app_company :: "nat option"
  position :: "string option"
  department :: "string option"
  why_internship :: "string option"
  skills_fit :: "string option"
  career_goals :: "string option"
  relevant_experience :: "string option"
  stage :: string
  app_notes :: "string option"

record company_opening =
  op_id :: nat
  op_company :: nat
  op_department :: string
  op_role_title :: "string option"
  op_expectations :: string
  op_slots :: "string option"
  op_location :: "string option"
  op_deadline :: "string option"
  op_created_at :: nat

record interview =
  iv_company :: "nat option"
  iv_application :: nat
  iv_date :: "string option"
  iv_time :: "string option"
  iv_mode :: "string option"
  iv_location :: "string option"
  iv_updated_at :: nat

record app_request =
  rq_application :: nat
  request_text :: "string option"
  response_text :: "string option"
  rq_updated_at :: nat

record company =
  c_id :: nat
  c_name :: string

record student =
  s_id :: nat
  s_full_name :: string

record account =
  acc_id :: nat
  acc_role :: string
  acc_status :: string
  acc_student :: "nat option"
  acc_company :: "nat option"

record audit =
  actor_user_id :: "nat option"
  action_type :: string
  entity_type :: string
  entity_id :: "nat option"

text \<open>
  A socket.io broadcast: the event name and the change descriptor of its payload (the
  action verb, the entity-type hint of an admin event, the affected id).
\<close>

record event =
  ev_name :: string
  ev_action :: string
  ev_entity_type :: string
  ev_entity :: "nat option"

text \<open>
  The server state: the tables, the \<open>sqlite_sequence\<close> counters of the two
  \<open>AUTOINCREMENT\<close> tables that routes insert into and read back by id, and the
  broadcasts sent so far (oldest first).
\<close>

record server =
  users :: "account list"
  students :: "student list"
  companies :: "company list"
  subscriptions :: "subscription list"
  applications :: "application list"
  app_seq :: nat
  company_openings :: "company_opening list"
  opening_seq :: nat
  company_interviews :: "interview list"
  application_requests :: "app_request list"
  audit_logs :: "audit list"
  emitted :: "event list"

section \<open>Broadcast and audit helpers\<close>

text \<open>
  \<open>io\<close> is assigned when the module is loaded, before the server listens, so it is set
  during every request and the \<open>if (io)\<close> of \<open>logAudit\<close> is taken.
\<close>

definition emit :: "string \<Rightarrow> string \<Rightarrow> string \<Rightarrow> nat option \<Rightarrow> server \<Rightarrow> server" where
  "emit name action etype eid s =
     s\<lparr>emitted := emitted s @
        [\<lparr>ev_name = name, ev_action = action, ev_entity_type = etype, ev_entity = eid\<rparr>]\<rparr>"

definition logAudit :: "nat option \<Rightarrow> string \<Rightarrow> string \<Rightarrow> nat option \<Rightarrow> server \<Rightarrow> server" where
  "logAudit actorUserId actionType entityType entityId s =
     emit ''admin:changed'' actionType entityType entityId
       (s\<lparr>audit_logs := audit_logs s @
          [\<lparr>actor_user_id = actorUserId, action_type = actionType,
            entity_type = entityType, entity_id = entityId\<rparr>]\<rparr>)"

definition emitApplicationsChanged :: "string \<Rightarrow> nat option \<Rightarrow> server \<Rightarrow> server" where
  "emitApplicationsChanged action eid s = emit ''applications:changed'' action ''application'' eid s"

definition emitOpeningsChanged :: "string \<Rightarrow> nat option \<Rightarrow> server \<Rightarrow> server" where
  "emitOpeningsChanged action eid s = emit ''openings:changed'' action ''opening'' eid s"

text \<open>\<open>authorizeRole(allowed)\<close>: an empty list lets every role through.\<close>

definition authorizeRole :: "string list \<Rightarrow> user \<Rightarrow> error option" where
  "authorizeRole allowed u =
     (if allowed \<noteq> [] \<and> role u \<notin> set allowed then Some (HttpError 403 ''Forbidden'') else None)"

section \<open>Subscription registry\<close>

definition subscribed :: "server \<Rightarrow> nat \<Rightarrow> nat \<Rightarrow> bool" where
  "subscribed s sid cid =
     (find (\<lambda>r. sub_student r = sid \<and> sub_company r = cid) (subscriptions s) \<noteq> None)"

text \<open>
  \<open>INSERT OR IGNORE\<close> under \<open>UNIQUE(student_id, company_id)\<close>: the row is added unless
  one with the same pair is there.
\<close>

definition insert_or_ignore :: "nat \<Rightarrow> nat \<Rightarrow> subscription list \<Rightarrow> subscription list" where
  "insert_or_ignore sid cid rows =
     (if find (\<lambda>r. sub_student r = sid \<and> sub_company r = cid) rows \<noteq> None then rows
      else rows @ [\<lparr>sub_student = sid, sub_company = cid\<rparr>])"

text \<open>\<open>POST /api/subscriptions\<close>, body field \<open>company_id\<close>.\<close>

definition post_subscriptions :: "user \<Rightarrow> nat option \<Rightarrow> server \<Rightarrow> (error + string) \<times> server" where
  "post_subscriptions u company_id s =
     (case authorizeRole [''student''] u of
        Some e \<Rightarrow> (Inl e, s)
      | None \<Rightarrow>
          if \<not> truthy_id (studentId u)
            then (Inl (HttpError 400 ''Student profile not linked to account''), s)
          else if \<not> truthy_id company_id
            then (Inl (HttpError 400 ''company_id required''), s)
          else
            (Inr ''subscribed'',
             logAudit (Some (userId u)) ''subscription_add'' ''subscription'' None
               (s\<lparr>subscriptions :=
                    insert_or_ignore (the (studentId u)) (the company_id) (subscriptions s)\<rparr>)))"

text \<open>\<open>DELETE /api/subscriptions/:companyId\<close>.\<close>

definition delete_subscription :: "user \<Rightarrow> nat \<Rightarrow> server \<Rightarrow> (error + string) \<times> server" where
  "delete_subscription u company_id s =
     (case authorizeRole [''student''] u of
        Some e \<Rightarrow> (Inl e, s)
      | None \<Rightarrow>
          if \<not> truthy_id (studentId u)
            then (Inl (HttpError 400 ''Student profile not linked to account''), s)
          else
            (Inr ''unsubscribed'',
             logAudit (Some (userId u)) ''subscription_remove'' ''subscription'' None
               (s\<lparr>subscriptions :=
                    filter (\<lambda>r. \<not> (sub_student r = the (studentId u) \<and> sub_company r = company_id))
                      (subscriptions s)\<rparr>)))"

section \<open>Opening catalog\<close>

text \<open>
  The base query of \<open>GET /api/openings\<close>:
  \<open>company_openings co JOIN companies c ON c.id = co.company_id\<close>.
\<close>

definition join_companies :: "server \<Rightarrow> (company_opening \<times> company) list" where
  "join_companies s =
     concat (map (\<lambda>co. map (\<lambda>c. (co, c)) (filter (\<lambda>c. c_id c = op_company co) (companies s)))
                 (company_openings s))"

text \<open>
  The student branch joins further:
  \<open>JOIN student_company_subscriptions s ON s.company_id = co.company_id WHERE s.student_id = ?\<close>.
\<close>

definition join_subscriptions ::
  "nat \<Rightarrow> server \<Rightarrow> (company_opening \<times> company) list \<Rightarrow> (company_opening \<times> company) list" where
  "join_subscriptions sid s rows =
     concat (map (\<lambda>(co, c). map (\<lambda>r. (co, c))
                    (filter (\<lambda>r. sub_company r = op_company co \<and> sub_student r = sid) (subscriptions s)))
                 rows)"

text \<open>
  \<open>ORDER BY co.created_at DESC\<close>: newest first. SQL leaves the order of rows with equal
  \<open>created_at\<close> open; SQLite keeps them in the order of the scan, the older row first, and
  so does this stable sort on the negated time.
\<close>

definition order_created_desc :: "(company_opening \<times> company) list \<Rightarrow> (company_opening \<times> company) list" where
  "order_created_desc rows = sort_key (\<lambda>(co, c). - int (op_created_at co)) rows"

text \<open>
  \<open>GET /api/openings\<close>. The handler reads nothing of the request but \<open>req.user\<close>; the
  query string the client sends is an argument all the same.
\<close>

definition get_openings ::
  "user \<Rightarrow> (string \<times> string) list \<Rightarrow> server \<Rightarrow> error + (company_opening \<times> company) list" where
  "get_openings u query s =
     (if role u = ''student'' then
        (if \<not> truthy_id (studentId u)
           then Inl (HttpError 400 ''Student profile not linked to account'')
         else Inr (order_created_desc (join_subscriptions (the (studentId u)) s (join_companies s))))
      else Inr (order_created_desc (join_companies s)))"

text \<open>
  The row id an \<open>AUTOINCREMENT\<close> table gives to an insert: one more than the largest id
  ever used.
\<close>

definition next_rowid :: "nat list \<Rightarrow> nat \<Rightarrow> nat" where
  "next_rowid ids seq = Suc (fold max ids seq)"

record opening_body =
  ob_company_id :: "nat option"
  ob_department :: jtext
  ob_role_title :: jtext
  ob_expectations :: jtext
  ob_slots :: jtext
  ob_location :: jtext
  ob_deadline :: jtext

fun text_of :: "jtext \<Rightarrow> string" where
  "text_of (Text t) = t"
| "text_of _ = []"

text \<open>The idiom \<open>id || null\<close> on a numeric id.\<close>

definition id_or_null :: "nat option \<Rightarrow> nat option" where
  "id_or_null x = (if truthy_id x then x else None)"

text \<open>
  \<open>POST /api/company-openings\<close>. The e-mail to subscribers that follows the broadcast
  (\<open>notifySubscribersForOpening\<close>) touches neither the store nor the socket and is left
  out. The row read back by its fresh id is there; the model answers 500 where the source
  would fail on \<open>row.id\<close>.
\<close>

definition post_company_openings ::
  "user \<Rightarrow> opening_body \<Rightarrow> nat \<Rightarrow> server \<Rightarrow> (error + company_opening) \<times> server" where
  "post_company_openings u b now s =
     (if role u \<noteq> ''company'' \<and> role u \<noteq> ''admin'' then (Inl (HttpError 403 ''Forbidden''), s)
      else
        let cid = (if role u = ''admin'' then id_or_null (ob_company_id b) else companyId u) in
        if \<not> truthy_id cid then (Inl (HttpError 400 ''company_id required''), s)
        else if \<not> truthy (ob_department b) \<or> \<not> truthy (ob_expectations b)
          then (Inl (HttpError 400 ''department and expectations required''), s)
        else
          let lastID = next_rowid (map op_id (company_openings s)) (opening_seq s);
              s1 = s\<lparr>company_openings := company_openings s @
                       [\<lparr>op_id = lastID, op_company = the cid,
                         op_department = text_of (ob_department b),
                         op_role_title = or_null (ob_role_title b),
                         op_expectations = text_of (ob_expectations b),
                         op_slots = or_null (ob_slots b),
                         op_location = or_null (ob_location b),
                         op_deadline = or_null (ob_deadline b),
                         op_created_at = now\<rparr>],
                     opening_seq := lastID\<rparr>
          in case find (\<lambda>r. op_id r = lastID) (company_openings s1) of
               None \<Rightarrow> (Inl (HttpError 500 ''row is undefined''), s1)
             | Some row \<Rightarrow>
                 (Inr row,
                  emitOpeningsChanged ''created'' (Some (op_id row))
                    (logAudit (Some (userId u)) ''opening_create'' ''opening'' (Some (op_id row)) s1)))"

text \<open>\<open>DELETE /api/company-openings/:id\<close>.\<close>

definition delete_company_opening :: "user \<Rightarrow> nat \<Rightarrow> server \<Rightarrow> (error + string) \<times> server" where
  "delete_company_opening u oid s =
     (case find (\<lambda>r. op_id r = oid) (company_openings s) of
        None \<Rightarrow> (Inl (HttpError 404 ''Not found''), s)
      | Some row \<Rightarrow>
          if \<not> (role u = ''admin'' \<or>
                 (role u = ''company'' \<and> truthy_id (companyId u) \<and> companyId u = Some (op_company row)))
            then (Inl (HttpError 403 ''Forbidden''), s)
          else
            (Inr ''deleted'',
             logAudit (Some (userId u)) ''opening_delete'' ''opening'' (Some oid)
               (s\<lparr>company_openings := filter (\<lambda>r. op_id r \<noteq> oid) (company_openings s)\<rparr>)))"

section \<open>Application record store\<close>

text \<open>The JSON body of the three application routes; each route reads its own fields.\<close>

record app_body =
  b_student_id :: "nat option"
  b_company_id :: "nat option"
  b_position :: jtext
  b_department :: jtext
  b_why_internship :: jtext
  b_skills_fit :: jtext
  b_career_goals :: jtext
  b_relevant_experience :: jtext
  b_stage :: jtext
  b_notes :: jtext

text \<open>
  \<open>SELECT 1 FROM applications WHERE student_id = ? AND company_id = ? AND stage = 'Rejected'\<close>
  finds a row.
\<close>

definition rejected_before :: "server \<Rightarrow> nat \<Rightarrow> nat \<Rightarrow> bool" where
  "rejected_before s sid cid =
     (find (\<lambda>a. app_student a = Some sid \<and> app_company a = Some cid \<and> stage a = ''Rejected'')
        (applications s) \<noteq> None)"

text \<open>The row that \<open>POST /api/applications\<close> inserts.\<close>

definition new_application :: "nat \<Rightarrow> nat \<Rightarrow> nat \<Rightarrow> app_body \<Rightarrow> application" where
  "new_application insertedId sid cid b =
     \<lparr>app_id = insertedId, app_student = Some sid, app_company = Some cid,
      position = Some (if truthy (b_position b) then text_of (b_position b)
                       else if truthy (b_department b) then text_of (b_department b) else []),
      department = or_null (b_department b),
      why_internship = or_null (b_why_internship b),
      skills_fit = or_null (b_skills_fit b),
      career_goals = or_null (b_career_goals b),
      relevant_experience = or_null (b_relevant_experience b),
      stage = ''Applied'',
      app_notes = None\<rparr>"

text \<open>\<open>POST /api/applications\<close>.\<close>

definition post_applications :: "user \<Rightarrow> app_body \<Rightarrow> server \<Rightarrow> (error + nat \<times> string) \<times> server" where
  "post_applications u b s =
     (case authorizeRole [''student''] u of
        Some e \<Rightarrow> (Inl e, s)
      | None \<Rightarrow>
          if \<not> truthy_id (studentId u)
            then (Inl (HttpError 400 ''Student profile not linked to account''), s)
          else if \<not> truthy_id (b_company_id b)
            then (Inl (HttpError 400 ''company_id required''), s)
          else if \<not> subscribed s (the (studentId u)) (the (b_company_id b))
            then (Inl (HttpError 403 ''Subscribe to this company before applying''), s)
          else if rejected_before s (the (studentId u)) (the (b_company_id b))
            then (Inl (HttpError 403
                    ''You cannot reapply to this company in the current cycle after a rejection.''), s)
          else
            let insertedId = next_rowid (map app_id (applications s)) (app_seq s);
                s1 = s\<lparr>applications := applications s @
                         [new_application insertedId (the (studentId u)) (the (b_company_id b)) b],
                       app_seq := insertedId\<rparr>
            in (Inr (insertedId, ''applied''),
                case find (\<lambda>a. app_id a = insertedId) (applications s1) of
                  None \<Rightarrow> s1
                | Some row2 \<Rightarrow> emitApplicationsChanged ''created'' (Some (app_id row2)) s1))"

text \<open>
  The \<open>allowed\<close> test of the two \<open>PATCH\<close> routes: an admin, the company the application
  was sent to, or the student who sent it.
\<close>

definition allowed_party :: "user \<Rightarrow> application \<Rightarrow> bool" where
  "allowed_party u row =
     (role u = ''admin'' \<or>
      (role u = ''company'' \<and> truthy_id (companyId u) \<and> companyId u = app_company row) \<or>
      (role u = ''student'' \<and> truthy_id (studentId u) \<and> studentId u = app_student row))"

text \<open>\<open>UPDATE applications SET stage = ? WHERE id = ?\<close>.\<close>

definition set_stage :: "nat \<Rightarrow> string \<Rightarrow> application list \<Rightarrow> application list" where
  "set_stage aid new_stage rows = map (\<lambda>a. if app_id a = aid then a\<lparr>stage := new_stage\<rparr> else a) rows"

text \<open>
  \<open>PATCH /api/applications/:id/status\<close>. The text message to the student that follows
  the broadcast (\<open>sendSMS\<close>) touches neither the store nor the socket and is left out.
\<close>

definition patch_application_status ::
  "user \<Rightarrow> nat \<Rightarrow> jtext \<Rightarrow> server \<Rightarrow> (error + string) \<times> server" where
  "patch_application_status u aid new_stage s =
     (if \<not> truthy new_stage then (Inl (HttpError 400 ''stage required''), s)
      else case find (\<lambda>a. app_id a = aid) (applications s) of
        None \<Rightarrow> (Inl (HttpError 404 ''Not found''), s)
      | Some row \<Rightarrow>
          if \<not> allowed_party u row then (Inl (HttpError 403 ''Forbidden''), s)
          else
            let s1 = s\<lparr>applications := set_stage aid (text_of new_stage) (applications s)\<rparr>
            in (Inr ''updated'',
                case find (\<lambda>a. app_id a = aid) (applications s1) of
                  None \<Rightarrow> s1
                | Some updated \<Rightarrow>
                    emitApplicationsChanged ''updated'' (Some (app_id updated))
                      (logAudit (Some (userId u)) ''application_stage'' ''application'' (Some aid) s1)))"

text \<open>The full-row update of \<open>PUT /api/applications/:id\<close>.\<close>

definition put_fields :: "app_body \<Rightarrow> application \<Rightarrow> application" where
  "put_fields b a =
     a\<lparr>app_student := id_or_null (b_student_id b),
       app_company := id_or_null (b_company_id b),
       position := or_null (b_position b),
       department := or_null (b_department b),
       why_internship := or_null (b_why_internship b),
       skills_fit := or_null (b_skills_fit b),
       career_goals := or_null (b_career_goals b),
       relevant_experience := or_null (b_relevant_experience b),
       stage := (if truthy (b_stage b) then text_of (b_stage b) else ''Applied''),
       app_notes := or_null (b_notes b)\<rparr>"

text \<open>\<open>PUT /api/applications/:id\<close>, admin only; answers the row, or \<open>{}\<close> when there is none.\<close>

definition put_application ::
  "user \<Rightarrow> nat \<Rightarrow> app_body \<Rightarrow> server \<Rightarrow> (error + application option) \<times> server" where
  "put_application u aid b s =
     (case authorizeRole [''admin''] u of
        Some e \<Rightarrow> (Inl e, s)
      | None \<Rightarrow>
          let s1 = s\<lparr>applications :=
                       map (\<lambda>a. if app_id a = aid then put_fields b a else a) (applications s)\<rparr>
          in (Inr (find (\<lambda>a. app_id a = aid) (applications s1)),
              logAudit (Some (userId u)) ''application_update'' ''application'' (Some aid) s1))"

text \<open>The partial update of \<open>PATCH /api/applications/:id\<close>: only fields present in the body.\<close>

definition patch_fields :: "app_body \<Rightarrow> application \<Rightarrow> application" where
  "patch_fields b a =
     a\<lparr>app_notes := (if defined (b_notes b) then or_null (b_notes b) else app_notes a),
       position := (if defined (b_position b) then or_null (b_position b) else position a),
       department := (if defined (b_department b) then or_null (b_department b) else department a),
       why_internship :=
         (if defined (b_why_internship b) then or_null (b_why_internship b) else why_internship a),
       skills_fit := (if defined (b_skills_fit b) then or_null (b_skills_fit b) else skills_fit a),
       career_goals :=
         (if defined (b_career_goals b) then or_null (b_career_goals b) else career_goals a),
       relevant_experience :=
         (if defined (b_relevant_experience b) then or_null (b_relevant_experience b)
          else relevant_experience a)\<rparr>"

definition no_fields :: "app_body \<Rightarrow> bool" where
  "no_fields b =
     (\<not> defined (b_notes b) \<and> \<not> defined (b_position b) \<and> \<not> defined (b_department b) \<and>
      \<not> defined (b_why_internship b) \<and> \<not> defined (b_skills_fit b) \<and>
      \<not> defined (b_career_goals b) \<and> \<not> defined (b_relevant_experience b))"

text \<open>\<open>PATCH /api/applications/:id\<close>.\<close>

definition patch_application ::
  "user \<Rightarrow> nat \<Rightarrow> app_body \<Rightarrow> server \<Rightarrow> (error + string) \<times> server" where
  "patch_application u aid b s =
     (case find (\<lambda>a. app_id a = aid) (applications s) of
        None \<Rightarrow> (Inl (HttpError 404 ''Not found''), s)
      | Some row \<Rightarrow>
          if \<not> allowed_party u row then (Inl (HttpError 403 ''Forbidden''), s)
          else if no_fields b then (Inl (HttpError 400 ''No fields to update''), s)
          else
            let s1 = s\<lparr>applications :=
                         map (\<lambda>a. if app_id a = aid then patch_fields b a else a) (applications s)\<rparr>
            in (Inr ''updated'',
                case find (\<lambda>a. app_id a = aid) (applications s1) of
                  None \<Rightarrow> s1
                | Some updated \<Rightarrow>
                    emitApplicationsChanged ''updated'' (Some (app_id updated))
                      (logAudit (Some (userId u)) ''application_edit'' ''application'' (Some aid) s1)))"

section \<open>Clarification thread\<close>

text \<open>The \<open>allowed\<close> test of the request route: an admin, or the company that owns the application.\<close>

definition allowed_company :: "user \<Rightarrow> application \<Rightarrow> bool" where
  "allowed_company u appRow =
     (role u = ''admin'' \<or>
      (role u = ''company'' \<and> truthy_id (companyId u) \<and> companyId u = app_company appRow))"

text \<open>\<open>POST /api/applications/:id/request\<close>; \<open>now\<close> is the value of \<open>datetime('now')\<close>.\<close>

definition post_application_request ::
  "user \<Rightarrow> nat \<Rightarrow> jtext \<Rightarrow> nat \<Rightarrow> server \<Rightarrow> (error + string) \<times> server" where
  "post_application_request u aid req_text now s =
     (if \<not> truthy req_text then (Inl (HttpError 400 ''request_text required''), s)
      else if role u \<noteq> ''company'' \<and> role u \<noteq> ''admin'' then (Inl (HttpError 403 ''Forbidden''), s)
      else case find (\<lambda>a. app_id a = aid) (applications s) of
        None \<Rightarrow> (Inl (HttpError 404 ''Not found''), s)
      | Some appRow \<Rightarrow>
          if \<not> allowed_company u appRow then (Inl (HttpError 403 ''Forbidden''), s)
          else (case find (\<lambda>r. rq_application r = aid) (application_requests s) of
            Some row \<Rightarrow>
              (Inr ''updated'',
               emitApplicationsChanged ''request'' (Some aid)
                 (s\<lparr>application_requests :=
                      map (\<lambda>r. if rq_application r = aid
                                then r\<lparr>request_text := Some (text_of req_text),
                                       response_text := None, rq_updated_at := now\<rparr>
                                else r)
                          (application_requests s)\<rparr>))
          | None \<Rightarrow>
              (Inr ''created'',
               emitApplicationsChanged ''request'' (Some aid)
                 (s\<lparr>application_requests := application_requests s @
                      [\<lparr>rq_application = aid, request_text = Some (text_of req_text),
                        response_text = None, rq_updated_at = now\<rparr>]\<rparr>))))"

text \<open>\<open>PATCH /api/applications/:id/request-response\<close>.\<close>

definition patch_request_response ::
  "user \<Rightarrow> nat \<Rightarrow> jtext \<Rightarrow> nat \<Rightarrow> server \<Rightarrow> (error + string) \<times> server" where
  "patch_request_response u aid resp_text now s =
     (if \<not> truthy resp_text then (Inl (HttpError 400 ''response_text required''), s)
      else if role u \<noteq> ''student'' \<or> \<not> truthy_id (studentId u) then (Inl (HttpError 403 ''Forbidden''), s)
      else case find (\<lambda>a. app_id a = aid) (applications s) of
        None \<Rightarrow> (Inl (HttpError 404 ''Not found''), s)
      | Some appRow \<Rightarrow>
          if app_student appRow \<noteq> studentId u then (Inl (HttpError 403 ''Forbidden''), s)
          else (case find (\<lambda>r. rq_application r = aid) (application_requests s) of
            None \<Rightarrow> (Inl (HttpError 404 ''Request not found''), s)
          | Some row \<Rightarrow>
              (Inr ''updated'',
               emitApplicationsChanged ''response'' (Some aid)
                 (s\<lparr>application_requests :=
                      map (\<lambda>r. if rq_application r = aid
                                then r\<lparr>response_text := Some (text_of resp_text), rq_updated_at := now\<rparr>
                                else r)
                          (application_requests s)\<rparr>))))"

section \<open>DELETE requests with two path segments\<close>

text \<open>
  The handler of \<open>DELETE /api/:type/:id\<close>, the last route registered. No middleware runs
  before it and it reads nothing of the request but the two path parameters.
\<close>

definition delete_by_type :: "string \<Rightarrow> nat \<Rightarrow> server \<Rightarrow> (error + string) \<times> server" where
  "delete_by_type type_param rid s =
     (if type_param = ''students''
        then (Inr ''Deleted'', s\<lparr>students := filter (\<lambda>r. s_id r \<noteq> rid) (students s)\<rparr>)
      else (Inr ''Deleted'', s\<lparr>companies := filter (\<lambda>r. c_id r \<noteq> rid) (companies s)\<rparr>))"

text \<open>
  What a request carries for \<open>authenticateToken\<close>: no \<open>Authorization\<close> header, a header
  that is not two words, a token that \<open>jwt.verify\<close> refuses, or a token with its decoded
  payload (\<open>userId = 0\<close> for a payload without one).
\<close>

datatype credentials = NoHeader | BadFormat | BadToken | Decoded user

text \<open>
  \<open>authenticateToken\<close>. A payload that names a student or a company becomes \<open>req.user\<close>
  as it is; otherwise role and links are read from the account row, if there is one.
\<close>

definition authenticateToken :: "credentials \<Rightarrow> server \<Rightarrow> error + user" where
  "authenticateToken cr s =
     (case cr of
        NoHeader \<Rightarrow> Inl (HttpError 401 ''Missing token'')
      | BadFormat \<Rightarrow> Inl (HttpError 401 ''Invalid token format'')
      | BadToken \<Rightarrow> Inl (HttpError 403 ''Invalid token'')
      | Decoded decoded \<Rightarrow>
          if userId decoded = 0 then Inl (HttpError 403 ''Invalid token'')
          else if truthy_id (studentId decoded) \<or> truthy_id (companyId decoded) then Inr decoded
          else (case find (\<lambda>a. acc_id a = userId decoded) (users s) of
                  None \<Rightarrow> Inr (decoded\<lparr>studentId := None, companyId := None\<rparr>)
                | Some row \<Rightarrow>
                    Inr (decoded\<lparr>role := (if acc_role row \<noteq> [] then acc_role row else role decoded),
                                 studentId := id_or_null (acc_student row),
                                 companyId := id_or_null (acc_company row)\<rparr>)))"

text \<open>A route behind \<open>authenticateToken\<close>: the error reply, or the handler on \<open>req.user\<close>.\<close>

definition authenticated ::
  "credentials \<Rightarrow> (user \<Rightarrow> server \<Rightarrow> (error + 'a) \<times> server) \<Rightarrow> server \<Rightarrow> (error + 'a) \<times> server" where
  "authenticated cr handler s =
     (case authenticateToken cr s of Inl e \<Rightarrow> (Inl e, s) | Inr u \<Rightarrow> handler u s)"

text \<open>\<open>DELETE /api/students/:id\<close>, admin only.\<close>

definition delete_student :: "nat \<Rightarrow> user \<Rightarrow> server \<Rightarrow> (error + string) \<times> server" where
  "delete_student rid u s =
     (case authorizeRole [''admin''] u of
        Some e \<Rightarrow> (Inl e, s)
      | None \<Rightarrow>
          (Inr ''deleted'',
           logAudit (Some (userId u)) ''student_delete'' ''student'' (Some rid)
             (s\<lparr>students := filter (\<lambda>r. s_id r \<noteq> rid) (students s)\<rparr>)))"

text \<open>\<open>DELETE /api/companies/:id\<close>, for an admin or the company itself.\<close>

definition delete_company :: "nat \<Rightarrow> user \<Rightarrow> server \<Rightarrow> (error + string) \<times> server" where
  "delete_company rid u s =
     (if role u \<noteq> ''admin'' \<and>
         \<not> (role u = ''company'' \<and> truthy_id (companyId u) \<and> companyId u = Some rid)
        then (Inl (HttpError 403 ''Forbidden''), s)
      else
        (Inr ''deleted'',
         logAudit (Some (userId u)) ''company_delete'' ''company'' (Some rid)
           (s\<lparr>companies := filter (\<lambda>r. c_id r \<noteq> rid) (companies s)\<rparr>)))"

text \<open>
  Express compares the literal parts of a route path with the request path as it is
  written, without regard to the case of letters; only then are the parameters cut out
  and percent-decoded.
\<close>

definition lower_char :: "char \<Rightarrow> char" where
  "lower_char c =
     (case map_of (zip ''ABCDEFGHIJKLMNOPQRSTUVWXYZ'' ''abcdefghijklmnopqrstuvwxyz'') c of
        Some l \<Rightarrow> l
      | None \<Rightarrow> c)"

text \<open>
  The server's answer to \<open>DELETE /api/<segment>/<id>\<close>. The first route whose path
  matches answers, in the order of registration: the four routes with a literal segment,
  each behind \<open>authenticateToken\<close>, then the generic one. \<open>segment\<close> is the text of the
  first parameter as the URL has it and \<open>type_param\<close> its decoded value, which is what the
  generic handler reads as \<open>req.params.type\<close> (the two are equal for a segment without
  percent escapes; the decoding itself is not modelled).
\<close>

definition delete_request ::
  "credentials \<Rightarrow> string \<Rightarrow> string \<Rightarrow> nat \<Rightarrow> server \<Rightarrow> (error + string) \<times> server" where
  "delete_request cr segment type_param rid s =
     (if map lower_char segment = ''subscriptions''
        then authenticated cr (\<lambda>u. delete_subscription u rid) s
      else if map lower_char segment = ''students''
        then authenticated cr (delete_student rid) s
      else if map lower_char segment = ''company-openings''
        then authenticated cr (\<lambda>u. delete_company_opening u rid) s
      else if map lower_char segment = ''companies''
        then authenticated cr (delete_company rid) s
      else delete_by_type type_param rid s)"

section \<open>Account deletion\<close>

text \<open>
  The cascade of \<open>DELETE /api/admin/users/:id\<close> for a linked student: the clarification
  requests and interview slots of the student's applications, the applications, the
  subscriptions and the student row. (\<open>deleteByAppIds\<close> returns at once on an empty id
  list; deleting the rows of no application is the same.)
\<close>

definition delete_student_data :: "nat \<Rightarrow> server \<Rightarrow> server" where
  "delete_student_data sid s =
     (let appIds = map app_id (filter (\<lambda>a. app_student a = Some sid) (applications s)) in
      s\<lparr>application_requests :=
           filter (\<lambda>r. rq_application r \<notin> set appIds) (application_requests s),
        company_interviews :=
           filter (\<lambda>r. iv_application r \<notin> set appIds) (company_interviews s),
        applications := filter (\<lambda>a. app_student a \<noteq> Some sid) (applications s),
        subscriptions := filter (\<lambda>r. sub_student r \<noteq> sid) (subscriptions s),
        students := filter (\<lambda>r. s_id r \<noteq> sid) (students s)\<rparr>)"

text \<open>The same for a linked company, with its openings and its interview slots.\<close>

definition delete_company_data :: "nat \<Rightarrow> server \<Rightarrow> server" where
  "delete_company_data cid s =
     (let appIds = map app_id (filter (\<lambda>a. app_company a = Some cid) (applications s)) in
      s\<lparr>application_requests :=
           filter (\<lambda>r. rq_application r \<notin> set appIds) (application_requests s),
        company_interviews :=
           filter (\<lambda>r. iv_company r \<noteq> Some cid)
             (filter (\<lambda>r. iv_application r \<notin> set appIds) (company_interviews s)),
        applications := filter (\<lambda>a. app_company a \<noteq> Some cid) (applications s),
        company_openings := filter (\<lambda>r. op_company r \<noteq> cid) (company_openings s),
        subscriptions := filter (\<lambda>r. sub_company r \<noteq> cid) (subscriptions s),
        companies := filter (\<lambda>r. c_id r \<noteq> cid) (companies s)\<rparr>)"

text \<open>
  \<open>DELETE /api/admin/users/:id\<close>, admin only; \<open>uid\<close> is \<open>Number(req.params.id)\<close>, with
  \<open>0\<close> for an id that is no number. The profile and support-ticket tables it also
  clears are not modelled.
\<close>

definition delete_admin_user :: "user \<Rightarrow> nat \<Rightarrow> server \<Rightarrow> (error + string) \<times> server" where
  "delete_admin_user u uid s =
     (case authorizeRole [''admin''] u of
        Some e \<Rightarrow> (Inl e, s)
      | None \<Rightarrow>
          if uid = 0 then (Inl (HttpError 400 ''Invalid user id''), s)
          else (case find (\<lambda>a. acc_id a = uid) (users s) of
            None \<Rightarrow> (Inl (HttpError 404 ''User not found''), s)
          | Some usr \<Rightarrow>
              if acc_role usr = ''admin'' \<and>
                 length (filter (\<lambda>a. acc_role a = ''admin'' \<and> acc_status a = ''active'' \<and>
                                     acc_id a \<noteq> uid) (users s)) = 0
                then (Inl (HttpError 409 ''Cannot delete the last admin''), s)
              else
                let s1 = (if truthy_id (acc_student usr)
                          then delete_student_data (the (acc_student usr)) s else s);
                    s2 = (if truthy_id (acc_company usr)
                          then delete_company_data (the (acc_company usr)) s1 else s1);
                    s3 = s2\<lparr>users := filter (\<lambda>a. acc_id a \<noteq> uid) (users s2)\<rparr>
                in (Inr ''deleted'',
                    logAudit (Some (userId u)) ''user_delete'' ''user'' (Some uid) s3)))"

section \<open>Mutations and their broadcasts\<close>

text \<open>
  The routes that write an application, a clarification request or an opening, as one
  type of requests, and the server's step on each: whether the reply was a success, and
  the state after.
\<close>

datatype mutation =
    CreateApplication app_body
  | PatchStage nat jtext
  | PutApplication nat app_body
  | PatchApplication nat app_body
  | SendRequest nat jtext
  | RespondToRequest nat jtext
  | CreateOpening opening_body
  | DeleteOpening nat
  | DeleteUser nat

definition outcome :: "(error + 'a) \<times> server \<Rightarrow> bool \<times> server" where
  "outcome r = (case fst r of Inl e \<Rightarrow> False | Inr v \<Rightarrow> True, snd r)"

fun perform :: "user \<Rightarrow> nat \<Rightarrow> mutation \<Rightarrow> server \<Rightarrow> bool \<times> server" where
  "perform u now (CreateApplication b) s = outcome (post_applications u b s)"
| "perform u now (PatchStage aid st) s = outcome (patch_application_status u aid st s)"
| "perform u now (PutApplication aid b) s = outcome (put_application u aid b s)"
| "perform u now (PatchApplication aid b) s = outcome (patch_application u aid b s)"
| "perform u now (SendRequest aid t) s = outcome (post_application_request u aid t now s)"
| "perform u now (RespondToRequest aid t) s = outcome (patch_request_response u aid t now s)"
| "perform u now (CreateOpening b) s = outcome (post_company_openings u b now s)"
| "perform u now (DeleteOpening oid) s = outcome (delete_company_opening u oid s)"
| "perform u now (DeleteUser uid) s = outcome (delete_admin_user u uid s)"

text \<open>The names of the broadcasts sent between two states, oldest first.\<close>

definition broadcasts :: "server \<Rightarrow> server \<Rightarrow> string list" where
  "broadcasts s s' = map ev_name (drop (length (emitted s)) (emitted s'))"

section \<open>Properties of a state\<close>

text \<open>The number of subscription rows of a pair; \<open>UNIQUE(student_id, company_id)\<close> keeps it at most one.\<close>

definition count_sub :: "server \<Rightarrow> nat \<Rightarrow> nat \<Rightarrow> nat" where
  "count_sub s sid cid =
     length (filter (\<lambda>r. sub_student r = sid \<and> sub_company r = cid) (subscriptions s))"

text \<open>Every clarification row carries a request text: the only insert writes one.\<close>

definition requests_wf :: "server \<Rightarrow> bool" where
  "requests_wf s = list_all (\<lambda>r. request_text r \<noteq> None) (application_requests s)"

text \<open>The clarification row of an application, as both routes read it.\<close>

definition thread :: "server \<Rightarrow> nat \<Rightarrow> app_request option" where
  "thread s aid = find (\<lambda>r. rq_application r = aid) (application_requests s)"



section \<open>A sample state\<close>

definition ada :: user where
  "ada = \<lparr>userId = 11, role = ''student'', studentId = Some 1, companyId = None\<rparr>"

definition bob :: user where
  "bob = \<lparr>userId = 12, role = ''student'', studentId = Some 2, companyId = None\<rparr>"

definition acme :: user where
  "acme = \<lparr>userId = 21, role = ''company'', studentId = None, companyId = Some 1\<rparr>"

definition globex :: user where
  "globex = \<lparr>userId = 22, role = ''company'', studentId = None, companyId = Some 2\<rparr>"

definition root :: user where
  "root = \<lparr>userId = 1, role = ''admin'', studentId = None, companyId = None\<rparr>"

definition essay :: "nat \<Rightarrow> nat \<Rightarrow> nat \<Rightarrow> string \<Rightarrow> application" where
  "essay aid sid cid st =
     \<lparr>app_id = aid, app_student = Some sid, app_company = Some cid,
      position = Some ''Intern'', department = None,
      why_internship = Some ''to learn'', skills_fit = None, career_goals = None,
      relevant_experience = None, stage = st, app_notes = None\<rparr>"

definition role_at :: "nat \<Rightarrow> nat \<Rightarrow> nat \<Rightarrow> company_opening" where
  "role_at oid cid t =
     \<lparr>op_id = oid, op_company = cid, op_department = ''Engineering'', op_role_title = None,
      op_expectations = ''Curiosity'', op_slots = None, op_location = None, op_deadline = None,
      op_created_at = t\<rparr>"

text \<open>
  Two students, two companies with one opening each; Ada is subscribed to Acme only and
  has applied there; Bob's application to Globex is already at \<open>Interviewing\<close>.
\<close>

definition campus :: server where
  "campus =
     \<lparr>users =
        [\<lparr>acc_id = 1, acc_role = ''admin'', acc_status = ''active'',
          acc_student = None, acc_company = None\<rparr>,
         \<lparr>acc_id = 11, acc_role = ''student'', acc_status = ''active'',
          acc_student = Some 1, acc_company = None\<rparr>,
         \<lparr>acc_id = 12, acc_role = ''student'', acc_status = ''active'',
          acc_student = Some 2, acc_company = None\<rparr>,
         \<lparr>acc_id = 21, acc_role = ''company'', acc_status = ''active'',
          acc_student = None, acc_company = Some 1\<rparr>,
         \<lparr>acc_id = 22, acc_role = ''company'', acc_status = ''active'',
          acc_student = None, acc_company = Some 2\<rparr>],
      students = [\<lparr>s_id = 1, s_full_name = ''Ada''\<rparr>, \<lparr>s_id = 2, s_full_name = ''Bob''\<rparr>],
      companies = [\<lparr>c_id = 1, c_name = ''Acme''\<rparr>, \<lparr>c_id = 2, c_name = ''Globex''\<rparr>],
      subscriptions = [\<lparr>sub_student = 1, sub_company = 1\<rparr>],
      applications = [essay 1 1 1 ''Applied'', essay 2 2 2 ''Interviewing''],
      app_seq = 2,
      company_openings = [role_at 1 1 5, role_at 2 2 6],
      opening_seq = 2,
      company_interviews = [],
      application_requests = [],
      audit_logs = [],
      emitted = []\<rparr>"

text \<open>
  The sample state once Acme has deleted its own company row with
  \<open>DELETE /api/companies/1\<close>: its opening and Ada's subscription row remain.
\<close>

definition orphaned :: server where
  "orphaned = snd (delete_company 1 acme campus)"

text \<open>A body that sets nothing, to be updated field by field.\<close>

definition blank :: app_body where
  "blank =
     \<lparr>b_student_id = None, b_company_id = None, b_position = Undefined,
      b_department = Undefined, b_why_internship = Undefined, b_skills_fit = Undefined,
      b_career_goals = Undefined, b_relevant_experience = Undefined, b_stage = Undefined,
      b_notes = Undefined\<rparr>"

text \<open>The body of Ada's application to a company.\<close>

definition apply_to :: "nat \<Rightarrow> app_body" where
  "apply_to cid = blank\<lparr>b_company_id := Some cid, b_why_internship := Text ''to learn''\<rparr>"

text \<open>A body that rewrites one essay field.\<close>

definition rewrite :: app_body where
  "rewrite = blank\<lparr>b_why_internship := Text ''rewritten''\<rparr>"

text \<open>The sample state once Acme has asked Ada for details on her application.\<close>

definition asked :: server where
  "asked = campus\<lparr>application_requests :=
     [\<lparr>rq_application = 1, request_text = Some ''Please share your GPA'',
       response_text = None, rq_updated_at = 7\<rparr>]\<rparr>"

section \<open>Reading and writing tables\<close>

lemma find_in_set: "(find P xs \<noteq> None) = (\<exists>x \<in> set xs. P x)"
  by (auto simp add: find_None_iff)

lemma find_Some_ex: "(\<exists>y. find P xs = Some y) = (\<exists>x \<in> set xs. P x)"
  using find_in_set [of P xs] by simp

lemma find_not_in_set: "(find P xs = None) = (\<forall>x \<in> set xs. \<not> P x)"
  by (auto simp add: find_None_iff)

lemma emit_tables [simp]:
  "users (emit n a t e s) = users s"
  "students (emit n a t e s) = students s"
  "companies (emit n a t e s) = companies s"
  "subscriptions (emit n a t e s) = subscriptions s"
  "applications (emit n a t e s) = applications s"
  "app_seq (emit n a t e s) = app_seq s"
  "company_openings (emit n a t e s) = company_openings s"
  "opening_seq (emit n a t e s) = opening_seq s"
  "company_interviews (emit n a t e s) = company_interviews s"
  "application_requests (emit n a t e s) = application_requests s"
  "audit_logs (emit n a t e s) = audit_logs s"
  "emitted (emit n a t e s) =
     emitted s @ [\<lparr>ev_name = n, ev_action = a, ev_entity_type = t, ev_entity = e\<rparr>]"
  by (simp_all add: emit_def)

lemma logAudit_tables [simp]:
  "users (logAudit a b c d s) = users s"
  "students (logAudit a b c d s) = students s"
  "companies (logAudit a b c d s) = companies s"
  "subscriptions (logAudit a b c d s) = subscriptions s"
  "applications (logAudit a b c d s) = applications s"
  "app_seq (logAudit a b c d s) = app_seq s"
  "company_openings (logAudit a b c d s) = company_openings s"
  "opening_seq (logAudit a b c d s) = opening_seq s"
  "company_interviews (logAudit a b c d s) = company_interviews s"
  "application_requests (logAudit a b c d s) = application_requests s"
  "emitted (logAudit a b c d s) =
     emitted s @ [\<lparr>ev_name = ''admin:changed'', ev_action = b, ev_entity_type = c, ev_entity = d\<rparr>]"
  by (simp_all add: logAudit_def)

section \<open>Subscriptions\<close>

lemma count_insert_or_ignore:
  assumes "length (filter (\<lambda>r. sub_student r = sid \<and> sub_company r = cid) rows) \<le> 1"
  shows "length (filter (\<lambda>r. sub_student r = sid \<and> sub_company r = cid)
                   (insert_or_ignore sid cid rows)) = 1"
proof (cases "\<exists>r \<in> set rows. sub_student r = sid \<and> sub_company r = cid")
  case True
  then have "filter (\<lambda>r. sub_student r = sid \<and> sub_company r = cid) rows \<noteq> []"
    by (auto simp: filter_empty_conv)
  then have "length (filter (\<lambda>r. sub_student r = sid \<and> sub_company r = cid) rows) \<noteq> 0"
    by simp
  with assms have "length (filter (\<lambda>r. sub_student r = sid \<and> sub_company r = cid) rows) = 1"
    by linarith
  moreover from True have "insert_or_ignore sid cid rows = rows"
    by (simp add: insert_or_ignore_def find_Some_ex)
  ultimately show ?thesis by simp
next
  case False
  then have "filter (\<lambda>r. sub_student r = sid \<and> sub_company r = cid) rows = []"
    by (auto simp: filter_empty_conv)
  moreover from False
  have "insert_or_ignore sid cid rows = rows @ [\<lparr>sub_student = sid, sub_company = cid\<rparr>]"
    by (simp add: insert_or_ignore_def find_Some_ex)
  ultimately show ?thesis by simp
qed

lemma insert_or_ignore_idem:
  "insert_or_ignore sid cid (insert_or_ignore sid cid rows) = insert_or_ignore sid cid rows"
  by (simp add: insert_or_ignore_def find_Some_ex)

lemma delete_absent:
  "\<not> subscribed s sid cid \<Longrightarrow>
   filter (\<lambda>r. \<not> (sub_student r = sid \<and> sub_company r = cid)) (subscriptions s) = subscriptions s"
  by (auto simp add: subscribed_def find_not_in_set filter_id_conv)

lemma subscriptions_same: "s\<lparr>subscriptions := subscriptions s\<rparr> = (s::server)"
  by simp

lemma post_subscriptions_student:
  assumes "role u = ''student''" and "studentId u = Some sid" and "sid \<noteq> 0" and "cid \<noteq> 0"
  shows "post_subscriptions u (Some cid) s =
      (Inr ''subscribed'',
       logAudit (Some (userId u)) ''subscription_add'' ''subscription'' None
         (s\<lparr>subscriptions := insert_or_ignore sid cid (subscriptions s)\<rparr>))"
  using assms by (simp add: post_subscriptions_def authorizeRole_def)

lemma delete_subscription_student:
  assumes "role u = ''student''" and "studentId u = Some sid" and "sid \<noteq> 0"
  shows "delete_subscription u cid s =
      (Inr ''unsubscribed'',
       logAudit (Some (userId u)) ''subscription_remove'' ''subscription'' None
         (s\<lparr>subscriptions :=
              filter (\<lambda>r. \<not> (sub_student r = sid \<and> sub_company r = cid)) (subscriptions s)\<rparr>))"
  using assms by (simp add: delete_subscription_def authorizeRole_def)

text \<open>
  C8. Subscribing is idempotent: for a student \<open>sid\<close> and a company \<open>cid\<close>, in a store
  that respects the uniqueness of the pair, two calls of \<open>POST /api/subscriptions\<close> both
  succeed and leave exactly one row for the pair, the second call leaving the table as the
  first did. Unsubscribing from a company the student has no row for answers
  \<open>unsubscribed\<close>, not an error, and changes no table but the audit log, which records
  the call.
\<close>

theorem subscribe_idempotent_unsubscribe_noop:
  assumes "role u = ''student''" and "studentId u = Some sid" and "sid \<noteq> 0" and "cid \<noteq> 0"
    and "count_sub s sid cid \<le> 1" and "\<not> subscribed s sid cid'"
  shows "fst (post_subscriptions u (Some cid) s) = Inr ''subscribed'' \<and>
         fst (post_subscriptions u (Some cid) (snd (post_subscriptions u (Some cid) s)))
           = Inr ''subscribed'' \<and>
         count_sub (snd (post_subscriptions u (Some cid) (snd (post_subscriptions u (Some cid) s))))
           sid cid = 1 \<and>
         subscriptions (snd (post_subscriptions u (Some cid) (snd (post_subscriptions u (Some cid) s))))
           = subscriptions (snd (post_subscriptions u (Some cid) s)) \<and>
         delete_subscription u cid' s =
           (Inr ''unsubscribed'',
            logAudit (Some (userId u)) ''subscription_remove'' ''subscription'' None s)"
proof -
  note post = post_subscriptions_student [OF assms(1-4)]
  have one: "count_sub (snd (post_subscriptions u (Some cid) (snd (post_subscriptions u (Some cid) s))))
           sid cid = 1"
    using assms(5) by (simp add: post count_sub_def insert_or_ignore_idem count_insert_or_ignore)
  have same: "s\<lparr>subscriptions :=
      filter (\<lambda>r. \<not> (sub_student r = sid \<and> sub_company r = cid')) (subscriptions s)\<rparr> = s"
    by (simp only: delete_absent [OF assms(6)] subscriptions_same)
  have del: "delete_subscription u cid' s =
           (Inr ''unsubscribed'',
            logAudit (Some (userId u)) ''subscription_remove'' ''subscription'' None s)"
    by (simp only: delete_subscription_student [OF assms(1-3)] same)
  show ?thesis
    using one del by (simp add: post insert_or_ignore_idem)
qed

theorem subscribe_idempotent_unsubscribe_noop_witness:
  "fst (post_subscriptions ada (Some 2) campus) = Inr ''subscribed'' \<and>
   count_sub campus 1 2 = 0 \<and>
   count_sub (snd (post_subscriptions ada (Some 2) campus)) 1 2 = 1 \<and>
   count_sub (snd (post_subscriptions ada (Some 2) (snd (post_subscriptions ada (Some 2) campus)))) 1 2 = 1 \<and>
   fst (delete_subscription ada 2 campus) = Inr ''unsubscribed'' \<and>
   subscriptions (snd (delete_subscription ada 2 campus)) = subscriptions campus"
proof -
  have h: "role ada = ''student''" "studentId ada = Some 1" "(1::nat) \<noteq> 0" "(2::nat) \<noteq> 0"
    "count_sub campus 1 2 \<le> 1" "\<not> subscribed campus 1 2"
    by (simp_all add: ada_def campus_def count_sub_def subscribed_def)
  have "count_sub (snd (post_subscriptions ada (Some 2) campus)) 1 2 = 1"
    by (simp add: post_subscriptions_def authorizeRole_def ada_def campus_def count_sub_def
        insert_or_ignore_def)
  moreover have "count_sub campus 1 2 = 0"
    by (simp add: campus_def count_sub_def)
  ultimately show ?thesis
    using subscribe_idempotent_unsubscribe_noop [OF h] by simp
qed

text \<open>
  C10. Unsubscribing removes the rows of the pair from the subscription table and nothing
  else there; the application table and the interview table are as they were.
\<close>

theorem unsubscribe_frame:
  assumes "role u = ''student''" and "studentId u = Some sid" and "sid \<noteq> 0"
  shows "fst (delete_subscription u cid s) = Inr ''unsubscribed'' \<and>
         subscriptions (snd (delete_subscription u cid s)) =
           filter (\<lambda>r. \<not> (sub_student r = sid \<and> sub_company r = cid)) (subscriptions s) \<and>
         applications (snd (delete_subscription u cid s)) = applications s \<and>
         company_interviews (snd (delete_subscription u cid s)) = company_interviews s"
  by (simp add: delete_subscription_student [OF assms])

theorem unsubscribe_frame_witness:
  "fst (delete_subscription ada 1 campus) = Inr ''unsubscribed'' \<and>
   subscriptions (snd (delete_subscription ada 1 campus)) = [] \<and>
   applications (snd (delete_subscription ada 1 campus)) = applications campus \<and>
   company_interviews (snd (delete_subscription ada 1 campus)) = company_interviews campus"
proof -
  have h: "role ada = ''student''" "studentId ada = Some 1" "(1::nat) \<noteq> 0"
    by (simp_all add: ada_def)
  show ?thesis
    using unsubscribe_frame [OF h, of 1 campus] by (simp add: campus_def)
qed

section \<open>Creating an application\<close>

lemma emitApplicationsChanged_tables [simp]:
  "users (emitApplicationsChanged a e s) = users s"
  "students (emitApplicationsChanged a e s) = students s"
  "companies (emitApplicationsChanged a e s) = companies s"
  "subscriptions (emitApplicationsChanged a e s) = subscriptions s"
  "applications (emitApplicationsChanged a e s) = applications s"
  "app_seq (emitApplicationsChanged a e s) = app_seq s"
  "company_openings (emitApplicationsChanged a e s) = company_openings s"
  "opening_seq (emitApplicationsChanged a e s) = opening_seq s"
  "company_interviews (emitApplicationsChanged a e s) = company_interviews s"
  "application_requests (emitApplicationsChanged a e s) = application_requests s"
  "audit_logs (emitApplicationsChanged a e s) = audit_logs s"
  "emitted (emitApplicationsChanged a e s) =
     emitted s @ [\<lparr>ev_name = ''applications:changed'', ev_action = a,
                   ev_entity_type = ''application'', ev_entity = e\<rparr>]"
  by (simp_all add: emitApplicationsChanged_def)

lemma find_appended: "P x \<Longrightarrow> \<exists>y. find P (xs @ [x]) = Some y"
  by (simp add: find_Some_ex)

lemma post_applications_student:
  assumes "role u = ''student''" and "studentId u = Some sid" and "sid \<noteq> 0"
    and "b_company_id b = Some cid" and "cid \<noteq> 0"
  shows "post_applications u b s =
     (if \<not> subscribed s sid cid
        then (Inl (HttpError 403 ''Subscribe to this company before applying''), s)
      else if rejected_before s sid cid
        then (Inl (HttpError 403
                ''You cannot reapply to this company in the current cycle after a rejection.''), s)
      else
        (Inr (next_rowid (map app_id (applications s)) (app_seq s), ''applied''),
         emitApplicationsChanged ''created'' (Some (next_rowid (map app_id (applications s)) (app_seq s)))
           (s\<lparr>applications := applications s @
                 [new_application (next_rowid (map app_id (applications s)) (app_seq s)) sid cid b],
              app_seq := next_rowid (map app_id (applications s)) (app_seq s)\<rparr>)))"
proof -
  let ?i = "next_rowid (map app_id (applications s)) (app_seq s)"
  have "app_id (new_application ?i sid cid b) = ?i"
    by (simp add: new_application_def)
  then obtain y where y: "find (\<lambda>a. app_id a = ?i) (applications s @ [new_application ?i sid cid b]) = Some y"
    using find_appended [of "\<lambda>a. app_id a = ?i"] by blast
  then have "app_id y = ?i"
    by (auto simp: find_Some_iff)
  with y show ?thesis
    using assms by (simp add: post_applications_def authorizeRole_def Let_def)
qed

lemma fold_max_ge_start: "seq \<le> fold max ids (seq::nat)"
proof (induction ids arbitrary: seq)
  case Nil
  show ?case by simp
next
  case (Cons i ids)
  have "seq \<le> max i seq" by simp
  also have "\<dots> \<le> fold max ids (max i seq)" by (rule Cons.IH)
  finally show ?case by simp
qed

lemma fold_max_ge_member: "i \<in> set ids \<Longrightarrow> i \<le> fold max ids (seq::nat)"
proof (induction ids arbitrary: seq)
  case Nil
  then show ?case by simp
next
  case (Cons j ids)
  show ?case
  proof (cases "i = j")
    case True
    have "i \<le> max j seq" using True by simp
    also have "\<dots> \<le> fold max ids (max j seq)" by (rule fold_max_ge_start)
    finally show ?thesis by simp
  next
    case False
    with Cons.prems have "i \<in> set ids" by simp
    then show ?thesis using Cons.IH by simp
  qed
qed

lemma next_rowid_fresh: "next_rowid ids seq \<notin> set ids"
proof
  assume "next_rowid ids seq \<in> set ids"
  then have "next_rowid ids seq \<le> fold max ids seq" by (rule fold_max_ge_member)
  then show False by (simp add: next_rowid_def)
qed

text \<open>
  C1. For a student \<open>sid\<close> and a company \<open>cid\<close>, \<open>POST /api/applications\<close> succeeds
  if and only if a subscription row of the pair exists and no application of the pair has
  stage \<open>Rejected\<close>. On success exactly one row is appended, with a fresh id, the pair
  and stage \<open>Applied\<close>; otherwise the reply is a 403 error and the state is unchanged.
\<close>

theorem create_application_iff:
  fixes u b s
  defines "r \<equiv> post_applications u b s"
  assumes "role u = ''student''" and "studentId u = Some sid" and "sid \<noteq> 0"
    and "b_company_id b = Some cid" and "cid \<noteq> 0"
  shows "((\<exists>x. fst r = Inr x) \<longleftrightarrow>
            (\<exists>row \<in> set (subscriptions s). sub_student row = sid \<and> sub_company row = cid) \<and>
            \<not> (\<exists>a \<in> set (applications s).
                  app_student a = Some sid \<and> app_company a = Some cid \<and> stage a = ''Rejected'')) \<and>
         ((\<exists>x. fst r = Inr x) \<longrightarrow>
            (\<exists>row. applications (snd r) = applications s @ [row] \<and>
                   app_student row = Some sid \<and> app_company row = Some cid \<and>
                   stage row = ''Applied'' \<and> fst r = Inr (app_id row, ''applied'') \<and>
                   app_id row \<notin> set (map app_id (applications s)))) \<and>
         (\<not> (\<exists>x. fst r = Inr x) \<longrightarrow> (\<exists>m. fst r = Inl (HttpError 403 m)) \<and> snd r = s)"
proof -
  let ?sub = "\<exists>row \<in> set (subscriptions s). sub_student row = sid \<and> sub_company row = cid"
  let ?rej = "\<exists>a \<in> set (applications s).
                  app_student a = Some sid \<and> app_company a = Some cid \<and> stage a = ''Rejected''"
  let ?i = "next_rowid (map app_id (applications s)) (app_seq s)"
  have sub: "subscribed s sid cid = ?sub"
    by (simp add: subscribed_def find_Some_ex)
  have rej: "rejected_before s sid cid = ?rej"
    by (simp add: rejected_before_def find_Some_ex)
  note eq = post_applications_student [OF assms(2-6), of s, folded r_def]
  consider (nosub) "\<not> ?sub" | (locked) "?sub" "?rej" | (ok) "?sub" "\<not> ?rej"
    by blast
  then show ?thesis
  proof cases
    case nosub
    then have "r = (Inl (HttpError 403 ''Subscribe to this company before applying''), s)"
      using eq sub by simp
    with nosub show ?thesis by simp
  next
    case locked
    then have "r = (Inl (HttpError 403
                ''You cannot reapply to this company in the current cycle after a rejection.''), s)"
      using eq sub rej by simp
    with locked show ?thesis by simp
  next
    case ok
    then have r: "r = (Inr (?i, ''applied''),
         emitApplicationsChanged ''created'' (Some ?i)
           (s\<lparr>applications := applications s @ [new_application ?i sid cid b],
              app_seq := ?i\<rparr>))"
      using eq sub rej by simp
    have "applications (snd r) = applications s @ [new_application ?i sid cid b]"
      by (simp add: r)
    moreover have "app_id (new_application ?i sid cid b) \<notin> set (map app_id (applications s))"
      using next_rowid_fresh [of "map app_id (applications s)" "app_seq s"]
      by (simp add: new_application_def)
    moreover have "fst r = Inr (app_id (new_application ?i sid cid b), ''applied'')"
      by (simp add: r new_application_def)
    moreover have "app_student (new_application ?i sid cid b) = Some sid"
      "app_company (new_application ?i sid cid b) = Some cid"
      "stage (new_application ?i sid cid b) = ''Applied''"
      by (simp_all add: new_application_def)
    ultimately have "\<exists>row. applications (snd r) = applications s @ [row] \<and>
                   app_student row = Some sid \<and> app_company row = Some cid \<and>
                   stage row = ''Applied'' \<and> fst r = Inr (app_id row, ''applied'') \<and>
                   app_id row \<notin> set (map app_id (applications s))"
      by blast
    moreover have "\<exists>x. fst r = Inr x" by (simp add: r)
    ultimately show ?thesis using ok by blast
  qed
qed

theorem create_application_iff_witness:
  "fst (post_applications ada (apply_to 1) campus) = Inr (3, ''applied'') \<and>
   fst (post_applications ada (apply_to 1) (campus\<lparr>applications := [essay 1 1 1 ''Rejected'']\<rparr>))
     = Inl (HttpError 403
         ''You cannot reapply to this company in the current cycle after a rejection.'') \<and>
   map stage (applications (snd (post_applications ada (apply_to 1) campus)))
     = [''Applied'', ''Interviewing'', ''Applied''] \<and>
   post_applications ada (apply_to 2) campus
     = (Inl (HttpError 403 ''Subscribe to this company before applying''), campus)"
proof -
  have h: "role ada = ''student''" "studentId ada = Some 1" "(1::nat) \<noteq> 0"
    "b_company_id (apply_to 1) = Some 1" "(1::nat) \<noteq> 0"
    by (simp_all add: ada_def apply_to_def blank_def)
  have sub: "\<exists>row \<in> set (subscriptions campus). sub_student row = 1 \<and> sub_company row = 1"
    by (simp add: campus_def)
  have rej: "\<not> (\<exists>a \<in> set (applications campus).
                  app_student a = Some 1 \<and> app_company a = Some 1 \<and> stage a = ''Rejected'')"
    by (simp add: campus_def essay_def)
  from create_application_iff [OF h, of campus] sub rej
  obtain row where row: "applications (snd (post_applications ada (apply_to 1) campus)) = applications campus @ [row]"
    "stage row = ''Applied''" "fst (post_applications ada (apply_to 1) campus) = Inr (app_id row, ''applied'')"
    by blast
  have "fst (post_applications ada (apply_to 1) campus) = Inr (3, ''applied'')"
    by (simp add: post_applications_def authorizeRole_def ada_def apply_to_def blank_def campus_def
        subscribed_def rejected_before_def essay_def next_rowid_def Let_def)
  moreover have "post_applications ada (apply_to 2) campus
     = (Inl (HttpError 403 ''Subscribe to this company before applying''), campus)"
    by (simp add: post_applications_def authorizeRole_def ada_def apply_to_def blank_def campus_def
        subscribed_def)
  moreover have "fst (post_applications ada (apply_to 1)
                          (campus\<lparr>applications := [essay 1 1 1 ''Rejected'']\<rparr>))
     = Inl (HttpError 403
         ''You cannot reapply to this company in the current cycle after a rejection.'')"
    by (simp add: post_applications_def authorizeRole_def ada_def apply_to_def blank_def campus_def
        subscribed_def rejected_before_def essay_def)
  ultimately show ?thesis using row by (simp add: campus_def essay_def)
qed

section \<open>Stage changes and edits\<close>

lemma find_map_row:
  assumes "\<And>a. P (f a) = P a"
  shows "find P (map (\<lambda>a. if P a then f a else a) xs) = map_option f (find P xs)"
  using assms by (induction xs) simp_all

lemma others_map_row:
  "filter (\<lambda>a. \<not> P a) (map (\<lambda>a. if P a then f a else a) xs) = filter (\<lambda>a. \<not> P a) xs"
  if "\<And>a. P (f a) = P a"
  using that by (induction xs) simp_all

lemma patch_application_status_allowed:
  assumes "truthy new_stage" and "find (\<lambda>a. app_id a = aid) (applications s) = Some row"
    and "allowed_party u row"
  shows "patch_application_status u aid new_stage s =
     (Inr ''updated'',
      emitApplicationsChanged ''updated'' (Some aid)
        (logAudit (Some (userId u)) ''application_stage'' ''application'' (Some aid)
           (s\<lparr>applications := set_stage aid (text_of new_stage) (applications s)\<rparr>)))"
proof -
  have "find (\<lambda>a. app_id a = aid) (set_stage aid (text_of new_stage) (applications s))
          = Some (row\<lparr>stage := text_of new_stage\<rparr>)"
    unfolding set_stage_def
    by (simp add: find_map_row [where P = "\<lambda>a. app_id a = aid"] assms(2))
  moreover have "app_id row = aid"
    using assms(2) by (auto simp: find_Some_iff)
  ultimately show ?thesis
    using assms by (simp add: patch_application_status_def Let_def)
qed





lemma patch_fields_id [simp]: "app_id (patch_fields b a) = app_id a"
  by (simp add: patch_fields_def)

lemma patch_application_allowed:
  assumes "find (\<lambda>a. app_id a = aid) (applications s) = Some row"
    and "allowed_party u row" and "\<not> no_fields b"
  shows "patch_application u aid b s =
     (Inr ''updated'',
      emitApplicationsChanged ''updated'' (Some aid)
        (logAudit (Some (userId u)) ''application_edit'' ''application'' (Some aid)
           (s\<lparr>applications :=
                map (\<lambda>a. if app_id a = aid then patch_fields b a else a) (applications s)\<rparr>)))"
proof -
  have "find (\<lambda>a. app_id a = aid)
          (map (\<lambda>a. if app_id a = aid then patch_fields b a else a) (applications s))
          = Some (patch_fields b row)"
    by (simp add: find_map_row [where P = "\<lambda>a. app_id a = aid"] assms(1))
  moreover have "app_id row = aid"
    using assms(1) by (auto simp: find_Some_iff)
  ultimately show ?thesis
    using assms by (simp add: patch_application_def Let_def)
qed

text \<open>
  C4, as the code has it. A student who owns an application may edit its essay fields at
  any stage: \<open>PATCH /api/applications/:id\<close> does not read the stage. The fields named in
  the body take the body's value (\<open>null\<close> for an empty one), the others and the stage
  stay. A student who does not own the application gets \<open>403 Forbidden\<close> and the state
  is unchanged.
\<close>

theorem student_edit_by_ownership:
  fixes u aid b s
  defines "r \<equiv> patch_application u aid b s"
  assumes "role u = ''student''" and "find (\<lambda>a. app_id a = aid) (applications s) = Some row"
    and "\<not> no_fields b"
  shows "(truthy_id (studentId u) \<and> studentId u = app_student row \<longrightarrow>
            fst r = Inr ''updated'' \<and>
            (\<exists>row'. find (\<lambda>a. app_id a = aid) (applications (snd r)) = Some row' \<and>
               why_internship row' =
                 (if defined (b_why_internship b) then or_null (b_why_internship b)
                  else why_internship row) \<and>
               skills_fit row' =
                 (if defined (b_skills_fit b) then or_null (b_skills_fit b) else skills_fit row) \<and>
               career_goals row' =
                 (if defined (b_career_goals b) then or_null (b_career_goals b)
                  else career_goals row) \<and>
               relevant_experience row' =
                 (if defined (b_relevant_experience b) then or_null (b_relevant_experience b)
                  else relevant_experience row) \<and>
               stage row' = stage row)) \<and>
         (\<not> (truthy_id (studentId u) \<and> studentId u = app_student row) \<longrightarrow>
            r = (Inl (HttpError 403 ''Forbidden''), s))"
proof (cases "truthy_id (studentId u) \<and> studentId u = app_student row")
  case True
  then have "allowed_party u row"
    using assms(2) by (auto simp add: allowed_party_def)
  note eq = patch_application_allowed [OF assms(3) this assms(4), folded r_def]
  have "find (\<lambda>a. app_id a = aid) (applications (snd r)) = Some (patch_fields b row)"
    by (simp add: eq find_map_row [where P = "\<lambda>a. app_id a = aid"] assms(3))
  moreover have "fst r = Inr ''updated''"
    by (simp add: eq)
  ultimately show ?thesis
    using True by (auto simp add: patch_fields_def)
next
  case False
  then have "\<not> allowed_party u row"
    using assms(2) by (auto simp add: allowed_party_def)
  then have "r = (Inl (HttpError 403 ''Forbidden''), s)"
    using assms(3) by (simp add: r_def patch_application_def)
  with False show ?thesis by simp
qed


theorem student_edit_by_ownership_witness:
  "fst (patch_application ada 1 rewrite campus) = Inr ''updated'' \<and>
   map why_internship (applications (snd (patch_application ada 1 rewrite campus)))
     = [Some ''rewritten'', Some ''to learn''] \<and>
   patch_application ada 2 rewrite campus = (Inl (HttpError 403 ''Forbidden''), campus)"
proof -
  have h: "role ada = ''student''" "\<not> no_fields rewrite"
    "find (\<lambda>a. app_id a = 1) (applications campus) = Some (essay 1 1 1 ''Applied'')"
    "find (\<lambda>a. app_id a = 2) (applications campus) = Some (essay 2 2 2 ''Interviewing'')"
    by (simp_all add: ada_def campus_def essay_def rewrite_def blank_def no_fields_def)
  have "map why_internship (applications (snd (patch_application ada 1 rewrite campus)))
     = [Some ''rewritten'', Some ''to learn'']"
    by (simp add: patch_application_def ada_def campus_def essay_def allowed_party_def
        rewrite_def blank_def no_fields_def patch_fields_def Let_def)
  then show ?thesis
    using student_edit_by_ownership [OF h(1) h(3) h(2)]
      student_edit_by_ownership [OF h(1) h(4) h(2)]
    by (simp add: ada_def essay_def)
qed

text \<open>
  C4 as stated fails: Bob's application is at \<open>Interviewing\<close>, and his edit of
  \<open>why_internship\<close> succeeds and is stored.
\<close>

theorem student_edits_essay_while_interviewing:
  "role bob = ''student'' \<and>
   map stage (applications campus) = [''Applied'', ''Interviewing''] \<and>
   map why_internship (applications campus) = [Some ''to learn'', Some ''to learn''] \<and>
   fst (patch_application bob 2 rewrite campus) = Inr ''updated'' \<and>
   map why_internship (applications (snd (patch_application bob 2 rewrite campus)))
     = [Some ''to learn'', Some ''rewritten'']"
  by (simp add: patch_application_def bob_def campus_def essay_def allowed_party_def
      rewrite_def blank_def no_fields_def patch_fields_def Let_def)

section \<open>The clarification handshake\<close>

lemma find_append_new: "find P xs = None \<Longrightarrow> P x \<Longrightarrow> find P (xs @ [x]) = Some x"
  by (induction xs) (simp_all split: if_splits)

lemma post_application_request_frame:
  "applications (snd (post_application_request u aid t now s)) = applications s"
  by (simp add: post_application_request_def split: option.split)

lemma patch_request_response_frame:
  "applications (snd (patch_request_response u aid t now s)) = applications s"
  by (simp add: patch_request_response_def split: option.split)

lemma post_application_request_allowed:
  assumes "truthy t" and "find (\<lambda>a. app_id a = aid) (applications s) = Some row"
    and "allowed_company u row"
  shows "(fst (post_application_request u aid t now s) = Inr ''created'' \<or>
          fst (post_application_request u aid t now s) = Inr ''updated'') \<and>
         (\<exists>q. thread (snd (post_application_request u aid t now s)) aid = Some q \<and>
              request_text q = Some (text_of t) \<and> response_text q = None \<and>
              rq_updated_at q = now) \<and>
         filter (\<lambda>q. rq_application q \<noteq> aid)
            (application_requests (snd (post_application_request u aid t now s)))
           = filter (\<lambda>q. rq_application q \<noteq> aid) (application_requests s)"
proof (cases "thread s aid")
  case None
  then have none: "find (\<lambda>r. rq_application r = aid) (application_requests s) = None"
    by (simp add: thread_def)
  have role: "\<not> (role u \<noteq> ''company'' \<and> role u \<noteq> ''admin'')"
    using assms(3) by (auto simp: allowed_company_def)
  have eq: "post_application_request u aid t now s =
      (Inr ''created'',
       emitApplicationsChanged ''request'' (Some aid)
         (s\<lparr>application_requests := application_requests s @
              [\<lparr>rq_application = aid, request_text = Some (text_of t),
                response_text = None, rq_updated_at = now\<rparr>]\<rparr>))"
    using assms role none by (simp add: post_application_request_def)
  show ?thesis
    by (simp add: eq thread_def find_append_new [OF none])
next
  case (Some q)
  then have some: "find (\<lambda>r. rq_application r = aid) (application_requests s) = Some q"
    by (simp add: thread_def)
  have role: "\<not> (role u \<noteq> ''company'' \<and> role u \<noteq> ''admin'')"
    using assms(3) by (auto simp: allowed_company_def)
  have eq: "post_application_request u aid t now s =
      (Inr ''updated'',
       emitApplicationsChanged ''request'' (Some aid)
         (s\<lparr>application_requests :=
              map (\<lambda>r. if rq_application r = aid
                        then r\<lparr>request_text := Some (text_of t),
                               response_text := None, rq_updated_at := now\<rparr>
                        else r)
                  (application_requests s)\<rparr>))"
    using assms role some by (simp add: post_application_request_def)
  show ?thesis
    by (simp add: eq thread_def some find_map_row [where P = "\<lambda>r. rq_application r = aid"]
        others_map_row [where P = "\<lambda>r. rq_application r = aid"])
qed

lemma patch_request_response_owner:
  assumes "truthy x" and "role v = ''student''" and "truthy_id (studentId v)"
    and "find (\<lambda>a. app_id a = aid) (applications s) = Some row"
    and "app_student row = studentId v" and "thread s aid = Some q"
  shows "fst (patch_request_response v aid x now s) = Inr ''updated'' \<and>
         thread (snd (patch_request_response v aid x now s)) aid
           = Some (q\<lparr>response_text := Some (text_of x), rq_updated_at := now\<rparr>) \<and>
         filter (\<lambda>q. rq_application q \<noteq> aid)
            (application_requests (snd (patch_request_response v aid x now s)))
           = filter (\<lambda>q. rq_application q \<noteq> aid) (application_requests s)"
proof -
  have some: "find (\<lambda>r. rq_application r = aid) (application_requests s) = Some q"
    using assms(6) by (simp add: thread_def)
  have eq: "patch_request_response v aid x now s =
      (Inr ''updated'',
       emitApplicationsChanged ''response'' (Some aid)
         (s\<lparr>application_requests :=
              map (\<lambda>r. if rq_application r = aid
                        then r\<lparr>response_text := Some (text_of x), rq_updated_at := now\<rparr>
                        else r)
                  (application_requests s)\<rparr>))"
    using assms(1-5) some by (simp add: patch_request_response_def)
  show ?thesis
    by (simp add: eq thread_def some find_map_row [where P = "\<lambda>r. rq_application r = aid"]
        others_map_row [where P = "\<lambda>r. rq_application r = aid"])
qed

text \<open>
  C6. A company that owns an application creates or overwrites its clarification request:
  after \<open>POST /api/applications/:id/request\<close> with a non-empty text the thread of the
  application holds that text, no response, and the time of the call, and the threads of
  other applications are as they were. Consequently, after a request, the owning student's
  response and a second request, the thread holds the second text and no response. A
  company that does not own the application gets \<open>403 Forbidden\<close> and the state is
  unchanged.
\<close>

theorem send_request_overwrites:
  fixes u aid t now s
  defines "r \<equiv> post_application_request u aid t now s"
  assumes "role u = ''company''" and "truthy t"
    and "find (\<lambda>a. app_id a = aid) (applications s) = Some row"
  shows "(truthy_id (companyId u) \<and> companyId u = app_company row \<longrightarrow>
            (fst r = Inr ''created'' \<or> fst r = Inr ''updated'') \<and>
            (\<exists>q. thread (snd r) aid = Some q \<and> request_text q = Some (text_of t) \<and>
                 response_text q = None \<and> rq_updated_at q = now) \<and>
            filter (\<lambda>q. rq_application q \<noteq> aid) (application_requests (snd r))
              = filter (\<lambda>q. rq_application q \<noteq> aid) (application_requests s) \<and>
            (role v = ''student'' \<and> truthy_id (studentId v) \<and> app_student row = studentId v \<and>
             truthy x \<and> truthy t' \<longrightarrow>
               (\<exists>q. thread (snd (patch_request_response v aid x now' (snd r))) aid = Some q \<and>
                    request_text q = Some (text_of t) \<and> response_text q = Some (text_of x)) \<and>
               (\<exists>q. thread (snd (post_application_request u aid t' now''
                                   (snd (patch_request_response v aid x now' (snd r))))) aid = Some q \<and>
                    request_text q = Some (text_of t') \<and> response_text q = None \<and>
                    rq_updated_at q = now''))) \<and>
         (\<not> (truthy_id (companyId u) \<and> companyId u = app_company row) \<longrightarrow>
            r = (Inl (HttpError 403 ''Forbidden''), s))"
proof (cases "truthy_id (companyId u) \<and> companyId u = app_company row")
  case False
  then have "\<not> allowed_company u row"
    using assms(2) by (auto simp: allowed_company_def)
  then have "r = (Inl (HttpError 403 ''Forbidden''), s)"
    using assms(2-4) by (simp add: r_def post_application_request_def)
  with False show ?thesis by blast
next
  case True
  then have own: "allowed_company u row"
    using assms(2) by (auto simp: allowed_company_def)
  note first = post_application_request_allowed [OF assms(3,4) own, of now, folded r_def]
  have round: "(\<exists>q. thread (snd (patch_request_response v aid x now' (snd r))) aid = Some q \<and>
                    request_text q = Some (text_of t) \<and> response_text q = Some (text_of x)) \<and>
               (\<exists>q. thread (snd (post_application_request u aid t' now''
                                   (snd (patch_request_response v aid x now' (snd r))))) aid = Some q \<and>
                    request_text q = Some (text_of t') \<and> response_text q = None \<and>
                    rq_updated_at q = now'')"
    if v: "role v = ''student''" "truthy_id (studentId v)" "app_student row = studentId v"
      and x: "truthy x" and t': "truthy t'"
  proof -
    from first obtain q where q: "thread (snd r) aid = Some q" "request_text q = Some (text_of t)"
      by blast
    have app1: "find (\<lambda>a. app_id a = aid) (applications (snd r)) = Some row"
      by (simp add: r_def post_application_request_frame assms(4))
    note second = patch_request_response_owner [OF x v(1,2) app1 v(3) q(1), of now']
    have app2: "find (\<lambda>a. app_id a = aid)
                  (applications (snd (patch_request_response v aid x now' (snd r)))) = Some row"
      by (simp add: patch_request_response_frame app1)
    note third = post_application_request_allowed [OF t' app2 own, of now'']
    from second q(2) third show ?thesis by simp
  qed
  from first round True show ?thesis by blast
qed


theorem send_request_overwrites_witness:
  "fst (post_application_request acme 1 (Text ''Please share your GPA'') 7 campus) = Inr ''created'' \<and>
   map (\<lambda>q. (request_text q, response_text q, rq_updated_at q))
     (application_requests
        (snd (post_application_request acme 1 (Text ''Also share transcript'') 9
           (snd (patch_request_response ada 1 (Text ''3.8/4.0'') 8
              (snd (post_application_request acme 1 (Text ''Please share your GPA'') 7 campus)))))))
     = [(Some ''Also share transcript'', None, 9)] \<and>
   post_application_request globex 1 (Text ''Please share your GPA'') 7 campus
     = (Inl (HttpError 403 ''Forbidden''), campus)"
proof -
  have h: "role acme = ''company''" "role globex = ''company''"
    "truthy (Text ''Please share your GPA'')"
    "find (\<lambda>a. app_id a = 1) (applications campus) = Some (essay 1 1 1 ''Applied'')"
    by (simp_all add: acme_def globex_def campus_def essay_def)
  have own: "allowed_company acme (essay 1 1 1 ''Applied'')"
    by (simp add: acme_def essay_def allowed_company_def)
  define c1 where "c1 = emitApplicationsChanged ''request'' (Some 1)
      (campus\<lparr>application_requests :=
         [\<lparr>rq_application = 1, request_text = Some ''Please share your GPA'',
           response_text = None, rq_updated_at = 7\<rparr>]\<rparr>)"
  define c2 where "c2 = emitApplicationsChanged ''response'' (Some 1)
      (c1\<lparr>application_requests :=
         [\<lparr>rq_application = 1, request_text = Some ''Please share your GPA'',
           response_text = Some ''3.8/4.0'', rq_updated_at = 8\<rparr>]\<rparr>)"
  have none: "application_requests campus = []"
    by (simp add: campus_def)
  have e1: "post_application_request acme 1 (Text ''Please share your GPA'') 7 campus
              = (Inr ''created'', c1)"
    using h(4) own none by (simp add: post_application_request_def c1_def acme_def)
  have t1: "applications c1 = applications campus"
    "application_requests c1 =
         [\<lparr>rq_application = 1, request_text = Some ''Please share your GPA'',
           response_text = None, rq_updated_at = 7\<rparr>]"
    by (simp_all add: c1_def)
  have e2: "patch_request_response ada 1 (Text ''3.8/4.0'') 8 c1 = (Inr ''updated'', c2)"
    using h(4) by (simp add: patch_request_response_def t1 c2_def ada_def essay_def)
  have t2: "applications c2 = applications campus"
    "application_requests c2 =
         [\<lparr>rq_application = 1, request_text = Some ''Please share your GPA'',
           response_text = Some ''3.8/4.0'', rq_updated_at = 8\<rparr>]"
    by (simp_all add: c2_def t1)
  have e3: "application_requests
              (snd (post_application_request acme 1 (Text ''Also share transcript'') 9 c2))
     = [\<lparr>rq_application = 1, request_text = Some ''Also share transcript'',
           response_text = None, rq_updated_at = 9\<rparr>]"
    using h(4) own by (simp add: post_application_request_def t2 acme_def)
  have a: "fst (post_application_request acme 1 (Text ''Please share your GPA'') 7 campus)
             = Inr ''created''"
    unfolding e1 by simp
  have b: "map (\<lambda>q. (request_text q, response_text q, rq_updated_at q))
     (application_requests
        (snd (post_application_request acme 1 (Text ''Also share transcript'') 9
           (snd (patch_request_response ada 1 (Text ''3.8/4.0'') 8
              (snd (post_application_request acme 1 (Text ''Please share your GPA'') 7 campus)))))))
     = [(Some ''Also share transcript'', None, 9)]"
    unfolding e1 snd_conv e2 e3 by simp
  have c: "post_application_request globex 1 (Text ''Please share your GPA'') 7 campus
     = (Inl (HttpError 403 ''Forbidden''), campus)"
    using send_request_overwrites [OF h(2) h(3) h(4), where now = 7]
    by (simp add: globex_def essay_def)
  from a b c show ?thesis by blast
qed

lemma patch_request_response_failure:
  "fst (patch_request_response u aid x now s) = Inl e \<Longrightarrow>
   snd (patch_request_response u aid x now s) = s"
  by (auto simp add: patch_request_response_def split: if_splits option.splits)

lemma patch_request_response_success:
  assumes "fst (patch_request_response u aid x now s) = Inr v"
  shows "truthy x \<and> role u = ''student'' \<and> truthy_id (studentId u) \<and>
         (\<exists>row. find (\<lambda>a. app_id a = aid) (applications s) = Some row \<and>
                app_student row = studentId u) \<and>
         (\<exists>q. thread s aid = Some q)"
  using assms
  by (auto simp add: patch_request_response_def thread_def split: if_splits option.splits)

lemma requests_wf_thread:
  "requests_wf s \<Longrightarrow> thread s aid = Some q \<Longrightarrow> \<exists>t. request_text q = Some t"
  by (auto simp: requests_wf_def thread_def list_all_iff find_Some_iff)

text \<open>
  C7. In a store whose clarification rows all carry a request text,
  \<open>PATCH /api/applications/:id/request-response\<close> succeeds exactly when the text is
  non-empty, the caller is a student who owns the application, and a request with a
  non-null text exists for it; it then stores the response on that thread. A caller who is
  not the owning student gets \<open>403 Forbidden\<close>, the owner of an application without a
  request gets \<open>404 Request not found\<close>, and every failure leaves the state unchanged.
\<close>

theorem respond_needs_owner_and_request:
  fixes u aid x now s
  defines "r \<equiv> patch_request_response u aid x now s"
  assumes "requests_wf s"
  shows "((\<exists>v. fst r = Inr v) \<longleftrightarrow>
            truthy x \<and> role u = ''student'' \<and> truthy_id (studentId u) \<and>
            (\<exists>row. find (\<lambda>a. app_id a = aid) (applications s) = Some row \<and>
                   app_student row = studentId u) \<and>
            (\<exists>q t. thread s aid = Some q \<and> request_text q = Some t)) \<and>
         ((\<exists>v. fst r = Inr v) \<longrightarrow>
            (\<exists>q t. thread (snd r) aid = Some q \<and> request_text q = Some t \<and>
                   response_text q = Some (text_of x) \<and> rq_updated_at q = now)) \<and>
         (truthy x \<and> find (\<lambda>a. app_id a = aid) (applications s) = Some row \<and>
          \<not> (role u = ''student'' \<and> truthy_id (studentId u) \<and> app_student row = studentId u)
            \<longrightarrow> r = (Inl (HttpError 403 ''Forbidden''), s)) \<and>
         (truthy x \<and> find (\<lambda>a. app_id a = aid) (applications s) = Some row \<and>
          role u = ''student'' \<and> truthy_id (studentId u) \<and> app_student row = studentId u \<and>
          thread s aid = None
            \<longrightarrow> r = (Inl (HttpError 404 ''Request not found''), s)) \<and>
         (\<forall>e. fst r = Inl e \<longrightarrow> snd r = s)"
proof -
  have ok: "\<exists>q t. thread (snd r) aid = Some q \<and> request_text q = Some t \<and>
                   response_text q = Some (text_of x) \<and> rq_updated_at q = now"
    and pre: "truthy x \<and> role u = ''student'' \<and> truthy_id (studentId u) \<and>
            (\<exists>row. find (\<lambda>a. app_id a = aid) (applications s) = Some row \<and>
                   app_student row = studentId u) \<and>
            (\<exists>q t. thread s aid = Some q \<and> request_text q = Some t)"
    if "fst r = Inr v" for v
  proof -
    from that have p: "truthy x" "role u = ''student''" "truthy_id (studentId u)"
      and "\<exists>row. find (\<lambda>a. app_id a = aid) (applications s) = Some row \<and>
                app_student row = studentId u"
      and "\<exists>q. thread s aid = Some q"
      using patch_request_response_success [of u aid x now s v] by (simp_all add: r_def)
    then obtain row q where row: "find (\<lambda>a. app_id a = aid) (applications s) = Some row"
      "app_student row = studentId u" and q: "thread s aid = Some q"
      by blast
    from requests_wf_thread [OF assms(2) q] obtain t where t: "request_text q = Some t" ..
    show "truthy x \<and> role u = ''student'' \<and> truthy_id (studentId u) \<and>
            (\<exists>row. find (\<lambda>a. app_id a = aid) (applications s) = Some row \<and>
                   app_student row = studentId u) \<and>
            (\<exists>q t. thread s aid = Some q \<and> request_text q = Some t)"
      using p row q t by blast
    from patch_request_response_owner [OF p row q, of now, folded r_def] t
    show "\<exists>q t. thread (snd r) aid = Some q \<and> request_text q = Some t \<and>
                   response_text q = Some (text_of x) \<and> rq_updated_at q = now"
      by simp
  qed
  have suff: "\<exists>v. fst r = Inr v"
    if "truthy x \<and> role u = ''student'' \<and> truthy_id (studentId u) \<and>
            (\<exists>row. find (\<lambda>a. app_id a = aid) (applications s) = Some row \<and>
                   app_student row = studentId u) \<and>
            (\<exists>q t. thread s aid = Some q \<and> request_text q = Some t)"
  proof -
    from that obtain row q where p: "truthy x" "role u = ''student''" "truthy_id (studentId u)"
      "find (\<lambda>a. app_id a = aid) (applications s) = Some row"
      "app_student row = studentId u" "thread s aid = Some q"
      by blast
    from patch_request_response_owner [OF p, of now, folded r_def] show ?thesis by blast
  qed
  have forbidden: "r = (Inl (HttpError 403 ''Forbidden''), s)"
    if "truthy x" "find (\<lambda>a. app_id a = aid) (applications s) = Some row"
      "\<not> (role u = ''student'' \<and> truthy_id (studentId u) \<and> app_student row = studentId u)"
    using that by (auto simp add: r_def patch_request_response_def)
  have missing: "r = (Inl (HttpError 404 ''Request not found''), s)"
    if "truthy x" "find (\<lambda>a. app_id a = aid) (applications s) = Some row"
      "role u = ''student''" "truthy_id (studentId u)" "app_student row = studentId u"
      "thread s aid = None"
    using that by (simp add: r_def patch_request_response_def thread_def)
  have unchanged: "\<forall>e. fst r = Inl e \<longrightarrow> snd r = s"
    using patch_request_response_failure [of u aid x now s] by (simp add: r_def)
  from ok pre suff forbidden missing unchanged show ?thesis
    by blast
qed


theorem respond_needs_owner_and_request_witness:
  "fst (patch_request_response ada 1 (Text ''3.8/4.0'') 8 asked) = Inr ''updated'' \<and>
   map response_text
     (application_requests (snd (patch_request_response ada 1 (Text ''3.8/4.0'') 8 asked)))
     = [Some ''3.8/4.0''] \<and>
   patch_request_response bob 1 (Text ''3.8/4.0'') 8 asked
     = (Inl (HttpError 403 ''Forbidden''), asked) \<and>
   patch_request_response ada 1 (Text ''3.8/4.0'') 8 campus
     = (Inl (HttpError 404 ''Request not found''), campus)"
proof -
  have wf: "requests_wf asked" "requests_wf campus"
    by (simp_all add: requests_wf_def asked_def campus_def)
  have app: "find (\<lambda>a. app_id a = 1) (applications asked) = Some (essay 1 1 1 ''Applied'')"
    "find (\<lambda>a. app_id a = 1) (applications campus) = Some (essay 1 1 1 ''Applied'')"
    by (simp_all add: asked_def campus_def essay_def)
  have a: "fst (patch_request_response ada 1 (Text ''3.8/4.0'') 8 asked) = Inr ''updated''"
    "map response_text
     (application_requests (snd (patch_request_response ada 1 (Text ''3.8/4.0'') 8 asked)))
     = [Some ''3.8/4.0'']"
    by (simp_all add: patch_request_response_def ada_def asked_def campus_def essay_def)
  have b: "patch_request_response bob 1 (Text ''3.8/4.0'') 8 asked
     = (Inl (HttpError 403 ''Forbidden''), asked)"
    using respond_needs_owner_and_request [OF wf(1), where u = bob and aid = 1
        and x = "Text ''3.8/4.0''" and now = 8 and row = "essay 1 1 1 ''Applied''"] app(1)
    by (simp add: bob_def essay_def)
  have c: "patch_request_response ada 1 (Text ''3.8/4.0'') 8 campus
     = (Inl (HttpError 404 ''Request not found''), campus)"
    using respond_needs_owner_and_request [OF wf(2), where u = ada and aid = 1
        and x = "Text ''3.8/4.0''" and now = 8 and row = "essay 1 1 1 ''Applied''"] app(2)
    by (simp add: ada_def essay_def thread_def campus_def)
  from a b c show ?thesis by blast
qed

section \<open>Visibility of openings\<close>

lemma set_order_created_desc [simp]: "set (order_created_desc rows) = set rows"
  by (simp add: order_created_desc_def)

lemma mset_order_created_desc [simp]: "mset (order_created_desc rows) = mset rows"
  by (simp add: order_created_desc_def)

lemma set_join_companies:
  "set (join_companies s) =
     {(co, c). co \<in> set (company_openings s) \<and> c \<in> set (companies s) \<and> c_id c = op_company co}"
  by (auto simp: join_companies_def)

lemma set_join_subscriptions:
  "set (join_subscriptions sid s rows) =
     {(co, c). (co, c) \<in> set rows \<and>
        (\<exists>r \<in> set (subscriptions s). sub_student r = sid \<and> sub_company r = op_company co)}"
  by (auto simp: join_subscriptions_def)

lemma filter_as_concat: "filter P xs = concat (map (\<lambda>x. if P x then [x] else []) xs)"
  by (induction xs) simp_all

lemma short_list: "length xs \<le> 1 \<Longrightarrow> xs = [] \<or> (\<exists>x. xs = [x])"
  by (cases xs) auto

lemma distinct_key_filter:
  "distinct (map f xs) \<Longrightarrow> length (filter (\<lambda>x. f x = k) xs) \<le> 1"
proof (induction xs)
  case Nil
  show ?case by simp
next
  case (Cons x xs)
  show ?case
  proof (cases "f x = k")
    case True
    from Cons.prems have "f x \<notin> f ` set xs" by simp
    then have "\<forall>y \<in> set xs. f y \<noteq> f x" by (metis imageI)
    with True have "\<forall>y \<in> set xs. f y \<noteq> k" by simp
    then have "filter (\<lambda>x. f x = k) xs = []" by (simp add: filter_empty_conv)
    with True show ?thesis by simp
  next
    case False
    with Cons show ?thesis by simp
  qed
qed

lemma map_fst_join:
  "map fst (concat (map g (concat (map f xs))))
     = concat (map (\<lambda>x. map fst (concat (map g (f x)))) xs)"
  by (induction xs) simp_all

lemma openings_of_student:
  assumes "distinct (map c_id (companies s))" and "\<And>cid. count_sub s sid cid \<le> 1"
  shows "map fst (join_subscriptions sid s (join_companies s)) =
         filter (\<lambda>co. (\<exists>c \<in> set (companies s). c_id c = op_company co) \<and>
                      (\<exists>r \<in> set (subscriptions s). sub_student r = sid \<and> sub_company r = op_company co))
           (company_openings s)"
proof -
  let ?P = "\<lambda>co. (\<exists>c \<in> set (companies s). c_id c = op_company co) \<and>
                      (\<exists>r \<in> set (subscriptions s). sub_student r = sid \<and> sub_company r = op_company co)"
  let ?subs = "\<lambda>co. filter (\<lambda>r. sub_company r = op_company co \<and> sub_student r = sid) (subscriptions s)"
  let ?comps = "\<lambda>co. filter (\<lambda>c. c_id c = op_company co) (companies s)"
  have one: "map fst (concat (map (\<lambda>(co, c). map (\<lambda>r. (co, c)) (?subs co))
                                  (map (\<lambda>c. (co, c)) (?comps co))))
               = (if ?P co then [co] else [])" for co
  proof -
    have "length (?comps co) \<le> 1"
      using assms(1) by (rule distinct_key_filter)
    then consider "?comps co = []" | c where "?comps co = [c]"
      using short_list by blast
    then show ?thesis
    proof cases
      case 1
      then have "\<not> (\<exists>c \<in> set (companies s). c_id c = op_company co)"
        by (simp add: filter_empty_conv)
      with 1 show ?thesis by simp
    next
      case 2
      then have "c \<in> set (?comps co)" by simp
      then have ex: "\<exists>c \<in> set (companies s). c_id c = op_company co" by auto
      have "?subs co = filter (\<lambda>r. sub_student r = sid \<and> sub_company r = op_company co) (subscriptions s)"
        by (rule filter_cong) auto
      then have "length (?subs co) \<le> 1"
        using assms(2) [of "op_company co"] by (simp add: count_sub_def)
      then consider "?subs co = []" | r where "?subs co = [r]"
        using short_list by blast
      then show ?thesis
      proof cases
        case 1
        then have "\<not> (\<exists>r \<in> set (subscriptions s). sub_student r = sid \<and> sub_company r = op_company co)"
          by (auto simp add: filter_empty_conv)
        with 1 2 show ?thesis by simp
      next
        case (2 r)
        then have "r \<in> set (?subs co)" by simp
        then have "\<exists>r \<in> set (subscriptions s). sub_student r = sid \<and> sub_company r = op_company co"
          by auto
        with 2 \<open>?comps co = [c]\<close> ex show ?thesis by simp
      qed
    qed
  qed
  have "map fst (join_subscriptions sid s (join_companies s))
        = concat (map (\<lambda>co. map fst (concat (map (\<lambda>(co, c). map (\<lambda>r. (co, c)) (?subs co))
                                  (map (\<lambda>c. (co, c)) (?comps co))))) (company_openings s))"
    unfolding join_subscriptions_def join_companies_def by (rule map_fst_join)
  also have "\<dots> = concat (map (\<lambda>co. if ?P co then [co] else []) (company_openings s))"
    by (simp only: one)
  also have "\<dots> = filter ?P (company_openings s)"
    by (rule filter_as_concat [symmetric])
  finally show ?thesis .
qed


text \<open>
  C9, as the code has it. For a student \<open>sid\<close>, whatever query the client sends,
  \<open>GET /api/openings\<close> returns rows whose openings are exactly the openings of the
  catalog whose \<open>company_id\<close> is the id of an existing company row and the company of a
  subscription row of the student; no opening of a company without such a subscription
  row is among them. Where company ids and subscription pairs are unique, as the schema
  demands, each such opening is returned once.
\<close>

theorem student_sees_subscribed_openings:
  assumes "role u = ''student''" and "studentId u = Some sid" and "sid \<noteq> 0"
  shows "\<exists>rows. get_openings u query s = Inr rows \<and>
           fst ` set rows =
             {co \<in> set (company_openings s).
                (\<exists>c \<in> set (companies s). c_id c = op_company co) \<and>
                (\<exists>r \<in> set (subscriptions s). sub_student r = sid \<and> sub_company r = op_company co)} \<and>
           (\<forall>(co, c) \<in> set rows.
               \<exists>r \<in> set (subscriptions s). sub_student r = sid \<and> sub_company r = op_company co) \<and>
           (distinct (map c_id (companies s)) \<and> (\<forall>cid. count_sub s sid cid \<le> 1) \<longrightarrow>
              mset (map fst rows) =
                mset (filter (\<lambda>co. (\<exists>c \<in> set (companies s). c_id c = op_company co) \<and>
                         (\<exists>r \<in> set (subscriptions s).
                             sub_student r = sid \<and> sub_company r = op_company co))
                       (company_openings s)))"
proof -
  let ?rows = "order_created_desc (join_subscriptions sid s (join_companies s))"
  have eq: "get_openings u query s = Inr ?rows"
    using assms by (simp add: get_openings_def)
  have members: "set ?rows =
     {(co, c). co \<in> set (company_openings s) \<and> c \<in> set (companies s) \<and> c_id c = op_company co \<and>
        (\<exists>r \<in> set (subscriptions s). sub_student r = sid \<and> sub_company r = op_company co)}"
    by (auto simp: set_join_subscriptions set_join_companies)
  have "fst ` set ?rows =
             {co \<in> set (company_openings s).
                (\<exists>c \<in> set (companies s). c_id c = op_company co) \<and>
                (\<exists>r \<in> set (subscriptions s). sub_student r = sid \<and> sub_company r = op_company co)}"
    unfolding members by force
  moreover have "\<forall>(co, c) \<in> set ?rows.
               \<exists>r \<in> set (subscriptions s). sub_student r = sid \<and> sub_company r = op_company co"
    unfolding members by blast
  moreover have "mset (map fst ?rows) =
                mset (filter (\<lambda>co. (\<exists>c \<in> set (companies s). c_id c = op_company co) \<and>
                         (\<exists>r \<in> set (subscriptions s).
                             sub_student r = sid \<and> sub_company r = op_company co))
                       (company_openings s))"
    if "distinct (map c_id (companies s))" "\<forall>cid. count_sub s sid cid \<le> 1"
  proof -
    have "mset (map fst ?rows) = mset (map fst (join_subscriptions sid s (join_companies s)))"
      by simp
    also have "map fst (join_subscriptions sid s (join_companies s)) =
        filter (\<lambda>co. (\<exists>c \<in> set (companies s). c_id c = op_company co) \<and>
                         (\<exists>r \<in> set (subscriptions s).
                             sub_student r = sid \<and> sub_company r = op_company co))
                       (company_openings s)"
      using that by (intro openings_of_student) simp_all
    finally show ?thesis .
  qed
  ultimately show ?thesis
    using eq by blast
qed


theorem student_sees_subscribed_openings_witness:
  "get_openings ada [(''company_id'', ''2'')] campus
     = Inr [(role_at 1 1 5, \<lparr>c_id = 1, c_name = ''Acme''\<rparr>)] \<and>
   map op_company (company_openings campus) = [1, 2] \<and>
   subscriptions campus = [\<lparr>sub_student = 1, sub_company = 1\<rparr>]"
proof -
  have h: "role ada = ''student''" "studentId ada = Some 1" "(1::nat) \<noteq> 0"
    by (simp_all add: ada_def)
  have "get_openings ada [(''company_id'', ''2'')] campus
     = Inr [(role_at 1 1 5, \<lparr>c_id = 1, c_name = ''Acme''\<rparr>)]"
    by (simp add: get_openings_def ada_def campus_def join_companies_def join_subscriptions_def
        order_created_desc_def role_at_def)
  then show ?thesis
    using student_sees_subscribed_openings [OF h, of "[(''company_id'', ''2'')]" campus]
    by (simp add: campus_def role_at_def)
qed

text \<open>
  C9 as stated fails: once Acme has deleted its company row, Ada still holds a
  subscription row for company 1 and opening 1 still names company 1, yet her list of
  openings is empty, because the query joins the company table.
\<close>

theorem orphan_opening_hidden:
  "fst (delete_company 1 acme campus) = Inr ''deleted'' \<and>
   subscriptions orphaned = [\<lparr>sub_student = 1, sub_company = 1\<rparr>] \<and>
   map op_company (company_openings orphaned) = [1, 2] \<and>
   map c_id (companies orphaned) = [2] \<and>
   studentId ada = Some 1 \<and>
   get_openings ada [] orphaned = Inr []"
proof -
  have reply: "fst (delete_company 1 acme campus) = Inr ''deleted''"
    by (simp add: delete_company_def acme_def)
  have tables: "subscriptions orphaned = [\<lparr>sub_student = 1, sub_company = 1\<rparr>]"
    "company_openings orphaned = [role_at 1 1 5, role_at 2 2 6]"
    "companies orphaned = [\<lparr>c_id = 2, c_name = ''Globex''\<rparr>]"
    by (simp_all add: orphaned_def delete_company_def acme_def campus_def)
  have hidden: "get_openings ada [] orphaned = Inr []"
    by (simp add: get_openings_def ada_def tables join_companies_def join_subscriptions_def
        order_created_desc_def role_at_def)
  from reply tables hidden show ?thesis
    by (simp add: role_at_def ada_def)
qed

section \<open>Deleting without a caller\<close>

lemma authenticated_NoHeader:
  "authenticated NoHeader handler s = (Inl (HttpError 401 ''Missing token''), s)"
  by (simp add: authenticated_def authenticateToken_def)

text \<open>
  C5, as the code has it. A request \<open>DELETE /api/:type/:id\<close> reaches the generic delete
  route when its type segment, as written and without regard to case, is none of
  \<open>subscriptions\<close>, \<open>students\<close>, \<open>company-openings\<close> and \<open>companies\<close>. The route then
  answers \<open>Deleted\<close> and deletes the rows with that id from the student table when the
  decoded type is \<open>students\<close>, from the company table for any other type, and does the
  same for any two callers, authenticated or not: it performs no authentication or role
  check. A request with one of the four segments is answered by the earlier route of that
  path, and without a token it gets \<open>401\<close> and deletes nothing.
\<close>

theorem generic_delete_when_reached:
  "(map lower_char segment \<notin> {''subscriptions'', ''students'', ''company-openings'', ''companies''} \<longrightarrow>
      delete_request cr segment type_param rid s = delete_request cr' segment type_param rid s \<and>
      fst (delete_request cr segment type_param rid s) = Inr ''Deleted'' \<and>
      (type_param = ''students'' \<longrightarrow>
         snd (delete_request cr segment type_param rid s)
           = s\<lparr>students := filter (\<lambda>r. s_id r \<noteq> rid) (students s)\<rparr>) \<and>
      (type_param \<noteq> ''students'' \<longrightarrow>
         snd (delete_request cr segment type_param rid s)
           = s\<lparr>companies := filter (\<lambda>r. c_id r \<noteq> rid) (companies s)\<rparr>)) \<and>
   (map lower_char segment \<in> {''subscriptions'', ''students'', ''company-openings'', ''companies''} \<longrightarrow>
      delete_request NoHeader segment type_param rid s = (Inl (HttpError 401 ''Missing token''), s))"
proof (cases "map lower_char segment \<in>
    {''subscriptions'', ''students'', ''company-openings'', ''companies''}")
  case True
  then have "delete_request NoHeader segment type_param rid s
               = (Inl (HttpError 401 ''Missing token''), s)"
    by (auto simp add: delete_request_def authenticated_NoHeader)
  with True show ?thesis by blast
next
  case False
  then have eq: "delete_request c segment ty rid s = delete_by_type ty rid s" for c ty
    by (simp add: delete_request_def)
  from False show ?thesis
    by (simp add: eq delete_by_type_def)
qed

theorem generic_delete_when_reached_witness:
  "delete_request NoHeader ''reports'' ''reports'' 2 campus
     = delete_request (Decoded ada) ''reports'' ''reports'' 2 campus \<and>
   map c_id (companies (snd (delete_request NoHeader ''reports'' ''reports'' 2 campus))) = [1] \<and>
   map s_id (students (snd (delete_request NoHeader ''reports'' ''reports'' 2 campus))) = [1, 2] \<and>
   map s_id (students (snd (delete_request NoHeader ''stud%65nts'' ''students'' 1 campus))) = [2] \<and>
   delete_request NoHeader ''Students'' ''Students'' 1 campus
     = (Inl (HttpError 401 ''Missing token''), campus)"
proof -
  have reports: "map lower_char ''reports'' \<notin>
      {''subscriptions'', ''students'', ''company-openings'', ''companies''}"
    and escaped: "map lower_char ''stud%65nts'' \<notin>
      {''subscriptions'', ''students'', ''company-openings'', ''companies''}"
    and capital: "map lower_char ''Students'' \<in>
      {''subscriptions'', ''students'', ''company-openings'', ''companies''}"
    by (simp_all add: lower_char_def)
  have a: "delete_request NoHeader ''reports'' ''reports'' 2 campus
     = delete_request (Decoded ada) ''reports'' ''reports'' 2 campus"
    using generic_delete_when_reached
      [of "''reports''" NoHeader "''reports''" 2 campus "Decoded ada"] reports
    by blast
  have "snd (delete_request NoHeader ''reports'' ''reports'' 2 campus)
          = campus\<lparr>companies := filter (\<lambda>r. c_id r \<noteq> 2) (companies campus)\<rparr>"
    using generic_delete_when_reached
      [of "''reports''" NoHeader "''reports''" 2 campus NoHeader] reports
    by simp
  then have b: "map c_id (companies (snd (delete_request NoHeader ''reports'' ''reports'' 2 campus))) = [1]"
    "map s_id (students (snd (delete_request NoHeader ''reports'' ''reports'' 2 campus))) = [1, 2]"
    by (simp_all add: campus_def)
  have "snd (delete_request NoHeader ''stud%65nts'' ''students'' 1 campus)
          = campus\<lparr>students := filter (\<lambda>r. s_id r \<noteq> 1) (students campus)\<rparr>"
    using generic_delete_when_reached
      [of "''stud%65nts''" NoHeader "''students''" 1 campus NoHeader] escaped
    by simp
  then have c: "map s_id (students (snd (delete_request NoHeader ''stud%65nts'' ''students'' 1 campus))) = [2]"
    by (simp add: campus_def)
  have d: "delete_request NoHeader ''Students'' ''Students'' 1 campus
     = (Inl (HttpError 401 ''Missing token''), campus)"
    using generic_delete_when_reached
      [of "''Students''" NoHeader "''Students''" 1 campus NoHeader] capital
    by blast
  from a b c d show ?thesis by blast
qed

text \<open>
  C5 as stated fails: \<open>DELETE /api/students/1\<close> is answered by the admin-only route
  registered earlier. Without a token the reply is \<open>401\<close> and no row is deleted, a student
  is refused with \<open>403\<close>, and only an admin deletes the row: three callers, three results.
\<close>

theorem students_delete_needs_admin:
  "delete_request NoHeader ''students'' ''students'' 1 campus
     = (Inl (HttpError 401 ''Missing token''), campus) \<and>
   delete_request (Decoded ada) ''students'' ''students'' 1 campus
     = (Inl (HttpError 403 ''Forbidden''), campus) \<and>
   fst (delete_request (Decoded root) ''students'' ''students'' 1 campus) = Inr ''deleted'' \<and>
   map s_id (students campus) = [1, 2] \<and>
   map s_id (students (snd (delete_request (Decoded root) ''students'' ''students'' 1 campus))) = [2]"
proof -
  have seg: "map lower_char ''students'' = ''students''"
    by (simp add: lower_char_def)
  have route: "delete_request cr ''students'' ''students'' 1 campus
                 = authenticated cr (delete_student 1) campus" for cr
    unfolding delete_request_def seg by simp
  have a: "delete_request NoHeader ''students'' ''students'' 1 campus
     = (Inl (HttpError 401 ''Missing token''), campus)"
    unfolding route by (rule authenticated_NoHeader)
  have b: "delete_request (Decoded ada) ''students'' ''students'' 1 campus
     = (Inl (HttpError 403 ''Forbidden''), campus)"
    unfolding route
    by (simp add: authenticated_def authenticateToken_def delete_student_def authorizeRole_def
        ada_def)
  have c: "fst (delete_request (Decoded root) ''students'' ''students'' 1 campus) = Inr ''deleted''"
    "map s_id (students (snd (delete_request (Decoded root) ''students'' ''students'' 1 campus))) = [2]"
    unfolding route
    by (simp_all add: authenticated_def authenticateToken_def delete_student_def authorizeRole_def
        root_def campus_def id_or_null_def)
  have d: "map s_id (students campus) = [1, 2]"
    by (simp add: campus_def)
  from a b c d show ?thesis by blast
qed

section \<open>Broadcasts of the mutating routes\<close>

lemma emitOpeningsChanged_tables [simp]:
  "users (emitOpeningsChanged a e s) = users s"
  "students (emitOpeningsChanged a e s) = students s"
  "companies (emitOpeningsChanged a e s) = companies s"
  "subscriptions (emitOpeningsChanged a e s) = subscriptions s"
  "applications (emitOpeningsChanged a e s) = applications s"
  "app_seq (emitOpeningsChanged a e s) = app_seq s"
  "company_openings (emitOpeningsChanged a e s) = company_openings s"
  "opening_seq (emitOpeningsChanged a e s) = opening_seq s"
  "company_interviews (emitOpeningsChanged a e s) = company_interviews s"
  "application_requests (emitOpeningsChanged a e s) = application_requests s"
  "audit_logs (emitOpeningsChanged a e s) = audit_logs s"
  "emitted (emitOpeningsChanged a e s) =
     emitted s @ [\<lparr>ev_name = ''openings:changed'', ev_action = a,
                   ev_entity_type = ''opening'', ev_entity = e\<rparr>]"
  by (simp_all add: emitOpeningsChanged_def)

lemma post_applications_success:
  assumes "fst (post_applications u b s) = Inr v"
  shows "\<exists>sid cid. role u = ''student'' \<and> studentId u = Some sid \<and> sid \<noteq> 0 \<and>
           b_company_id b = Some cid \<and> cid \<noteq> 0 \<and> subscribed s sid cid \<and>
           \<not> rejected_before s sid cid"
proof -
  from assms have "authorizeRole [''student''] u = None" "truthy_id (studentId u)"
    "truthy_id (b_company_id b)"
    "subscribed s (the (studentId u)) (the (b_company_id b))"
    "\<not> rejected_before s (the (studentId u)) (the (b_company_id b))"
    by (auto simp: post_applications_def split: option.splits if_splits)
  moreover from this(1) have "role u = ''student''"
    by (simp add: authorizeRole_def split: if_splits)
  moreover from \<open>truthy_id (studentId u)\<close> obtain sid where "studentId u = Some sid" "sid \<noteq> 0"
    by (cases "studentId u") auto
  moreover from \<open>truthy_id (b_company_id b)\<close> obtain cid where "b_company_id b = Some cid" "cid \<noteq> 0"
    by (cases "b_company_id b") auto
  ultimately show ?thesis by auto
qed

lemma post_applications_broadcasts:
  assumes "fst (post_applications u b s) = Inr v"
  shows "broadcasts s (snd (post_applications u b s)) = [''applications:changed'']"
proof -
  from post_applications_success [OF assms]
  obtain sid cid where h: "role u = ''student''" "studentId u = Some sid" "sid \<noteq> 0"
    "b_company_id b = Some cid" "cid \<noteq> 0" and ok: "subscribed s sid cid" "\<not> rejected_before s sid cid"
    by blast
  show ?thesis
    using ok by (simp add: post_applications_student [OF h] broadcasts_def)
qed

lemma patch_application_status_success:
  assumes "fst (patch_application_status u aid st s) = Inr v"
  shows "truthy st \<and> (\<exists>row. find (\<lambda>a. app_id a = aid) (applications s) = Some row \<and> allowed_party u row)"
  using assms by (auto simp: patch_application_status_def split: option.splits if_splits)

lemma patch_application_status_broadcasts:
  assumes "fst (patch_application_status u aid st s) = Inr v"
  shows "broadcasts s (snd (patch_application_status u aid st s))
           = [''admin:changed'', ''applications:changed'']"
proof -
  from patch_application_status_success [OF assms]
  obtain row where h: "truthy st" "find (\<lambda>a. app_id a = aid) (applications s) = Some row"
    "allowed_party u row" by blast
  show ?thesis
    by (simp add: patch_application_status_allowed [OF h] broadcasts_def)
qed

lemma patch_application_success:
  assumes "fst (patch_application u aid b s) = Inr v"
  shows "\<not> no_fields b \<and>
         (\<exists>row. find (\<lambda>a. app_id a = aid) (applications s) = Some row \<and> allowed_party u row)"
  using assms by (auto simp: patch_application_def split: option.splits if_splits)

lemma patch_application_broadcasts:
  assumes "fst (patch_application u aid b s) = Inr v"
  shows "broadcasts s (snd (patch_application u aid b s))
           = [''admin:changed'', ''applications:changed'']"
proof -
  from patch_application_success [OF assms]
  obtain row where h: "find (\<lambda>a. app_id a = aid) (applications s) = Some row"
    "allowed_party u row" "\<not> no_fields b" by blast
  show ?thesis
    by (simp add: patch_application_allowed [OF h] broadcasts_def)
qed

lemma put_application_broadcasts:
  "fst (put_application u aid b s) = Inr v \<Longrightarrow>
   broadcasts s (snd (put_application u aid b s)) = [''admin:changed'']"
  by (auto simp: put_application_def broadcasts_def Let_def split: option.splits)

lemma post_application_request_broadcasts:
  "fst (post_application_request u aid t now s) = Inr v \<Longrightarrow>
   broadcasts s (snd (post_application_request u aid t now s)) = [''applications:changed'']"
  by (auto simp: post_application_request_def broadcasts_def split: option.splits if_splits)

lemma patch_request_response_broadcasts:
  "fst (patch_request_response u aid t now s) = Inr v \<Longrightarrow>
   broadcasts s (snd (patch_request_response u aid t now s)) = [''applications:changed'']"
  by (auto simp: patch_request_response_def broadcasts_def split: option.splits if_splits)

lemma post_company_openings_broadcasts:
  "fst (post_company_openings u b now s) = Inr v \<Longrightarrow>
   broadcasts s (snd (post_company_openings u b now s)) = [''admin:changed'', ''openings:changed'']"
  by (auto simp: post_company_openings_def broadcasts_def Let_def split: option.splits if_splits)

lemma delete_company_opening_broadcasts:
  "fst (delete_company_opening u oid s) = Inr v \<Longrightarrow>
   broadcasts s (snd (delete_company_opening u oid s)) = [''admin:changed'']"
  by (auto simp: delete_company_opening_def broadcasts_def split: option.splits if_splits)

lemma delete_student_data_emitted [simp]:
  "emitted (delete_student_data sid s) = emitted s"
  by (simp add: delete_student_data_def Let_def)

lemma delete_company_data_emitted [simp]:
  "emitted (delete_company_data cid s) = emitted s"
  by (simp add: delete_company_data_def Let_def)

lemma delete_admin_user_broadcasts:
  "fst (delete_admin_user u uid s) = Inr v \<Longrightarrow>
   broadcasts s (snd (delete_admin_user u uid s)) = [''admin:changed'']"
  by (auto simp: delete_admin_user_def broadcasts_def Let_def split: option.splits if_splits)

lemma outcome_success: "fst (outcome r) \<Longrightarrow> \<exists>v. fst r = Inr v"
  by (cases "fst r") (simp_all add: outcome_def)

lemma snd_outcome [simp]: "snd (outcome r) = snd r"
  by (simp add: outcome_def)

text \<open>
  C3, as the code has it. Every successful request to a route that writes an application,
  a clarification request or an opening sends one or two broadcasts, each named
  \<open>applications:changed\<close>, \<open>openings:changed\<close> or \<open>admin:changed\<close>. Creating an
  application, sending a request and responding send one \<open>applications:changed\<close>; the
  admin's full update, the deletion of an opening and the deletion of an account (with
  the applications, requests and openings that hang on it) send one \<open>admin:changed\<close>,
  from the audit log; a stage change and a partial edit send \<open>admin:changed\<close> and then
  \<open>applications:changed\<close>; creating an opening sends \<open>admin:changed\<close> and then
  \<open>openings:changed\<close>.
\<close>

theorem mutation_broadcasts:
  assumes "fst (perform u now m s)"
  shows "broadcasts s (snd (perform u now m s)) =
           (case m of
              CreateApplication b \<Rightarrow> [''applications:changed'']
            | PatchStage aid st \<Rightarrow> [''admin:changed'', ''applications:changed'']
            | PutApplication aid b \<Rightarrow> [''admin:changed'']
            | PatchApplication aid b \<Rightarrow> [''admin:changed'', ''applications:changed'']
            | SendRequest aid t \<Rightarrow> [''applications:changed'']
            | RespondToRequest aid t \<Rightarrow> [''applications:changed'']
            | CreateOpening b \<Rightarrow> [''admin:changed'', ''openings:changed'']
            | DeleteOpening oid \<Rightarrow> [''admin:changed'']
            | DeleteUser uid \<Rightarrow> [''admin:changed'']) \<and>
         (length (broadcasts s (snd (perform u now m s))) = 1 \<or>
          length (broadcasts s (snd (perform u now m s))) = 2) \<and>
         set (broadcasts s (snd (perform u now m s)))
           \<subseteq> {''applications:changed'', ''openings:changed'', ''admin:changed''}"
proof (cases m)
  case (CreateApplication b)
  with assms obtain v where "fst (post_applications u b s) = Inr v"
    using outcome_success by fastforce
  then show ?thesis
    using CreateApplication by (simp add: post_applications_broadcasts)
next
  case (PatchStage aid st)
  with assms obtain v where "fst (patch_application_status u aid st s) = Inr v"
    using outcome_success by fastforce
  then show ?thesis
    using PatchStage by (simp add: patch_application_status_broadcasts)
next
  case (PutApplication aid b)
  with assms obtain v where "fst (put_application u aid b s) = Inr v"
    using outcome_success by fastforce
  then show ?thesis
    using PutApplication by (simp add: put_application_broadcasts)
next
  case (PatchApplication aid b)
  with assms obtain v where "fst (patch_application u aid b s) = Inr v"
    using outcome_success by fastforce
  then show ?thesis
    using PatchApplication by (simp add: patch_application_broadcasts)
next
  case (SendRequest aid t)
  with assms obtain v where "fst (post_application_request u aid t now s) = Inr v"
    using outcome_success by fastforce
  then show ?thesis
    using SendRequest by (simp add: post_application_request_broadcasts)
next
  case (RespondToRequest aid t)
  with assms obtain v where "fst (patch_request_response u aid t now s) = Inr v"
    using outcome_success by fastforce
  then show ?thesis
    using RespondToRequest by (simp add: patch_request_response_broadcasts)
next
  case (CreateOpening b)
  with assms obtain v where "fst (post_company_openings u b now s) = Inr v"
    using outcome_success by fastforce
  then show ?thesis
    using CreateOpening by (simp add: post_company_openings_broadcasts)
next
  case (DeleteOpening oid)
  with assms obtain v where "fst (delete_company_opening u oid s) = Inr v"
    using outcome_success by fastforce
  then show ?thesis
    using DeleteOpening by (simp add: delete_company_opening_broadcasts)
next
  case (DeleteUser uid)
  with assms obtain v where "fst (delete_admin_user u uid s) = Inr v"
    using outcome_success by fastforce
  then show ?thesis
    using DeleteUser by (simp add: delete_admin_user_broadcasts)
qed


theorem mutation_broadcasts_witness:
  "fst (perform acme 7 (SendRequest 1 (Text ''Please share your GPA'')) campus) \<and>
   broadcasts campus (snd (perform acme 7 (SendRequest 1 (Text ''Please share your GPA'')) campus))
     = [''applications:changed''] \<and>
   fst (perform acme 7 (DeleteOpening 1) campus) \<and>
   broadcasts campus (snd (perform acme 7 (DeleteOpening 1) campus)) = [''admin:changed''] \<and>
   fst (perform root 7 (DeleteUser 11) campus) \<and>
   broadcasts campus (snd (perform root 7 (DeleteUser 11) campus)) = [''admin:changed'']"
proof -
  have a: "fst (perform acme 7 (SendRequest 1 (Text ''Please share your GPA'')) campus)"
    by (simp add: outcome_def post_application_request_def acme_def campus_def essay_def
        allowed_company_def)
  have b: "fst (perform acme 7 (DeleteOpening 1) campus)"
    by (simp add: outcome_def delete_company_opening_def acme_def campus_def role_at_def)
  have c: "fst (perform root 7 (DeleteUser 11) campus)"
    by (simp add: outcome_def delete_admin_user_def authorizeRole_def root_def campus_def Let_def)
  from mutation_broadcasts [OF a] mutation_broadcasts [OF b] mutation_broadcasts [OF c] a b c
  show ?thesis
    by simp
qed

text \<open>
  C3 as stated fails: one successful stage change by the owning company sends two
  broadcasts.
\<close>

theorem stage_change_broadcasts_twice:
  "fst (patch_application_status acme 1 (Text ''Interviewing'') campus) = Inr ''updated'' \<and>
   map ev_name (emitted campus) = [] \<and>
   map ev_name (emitted (snd (patch_application_status acme 1 (Text ''Interviewing'') campus)))
     = [''admin:changed'', ''applications:changed'']"
  by (simp add: patch_application_status_def acme_def campus_def essay_def allowed_party_def
      set_stage_def Let_def emitApplicationsChanged_def logAudit_def emit_def)

section \<open>The request-text invariant\<close>

text \<open>
  Every route keeps the invariant that a clarification row carries a request text; the
  empty table has it.
\<close>

lemma requests_wf_perform:
  assumes "requests_wf s"
  shows "requests_wf (snd (perform u now m s))"
proof (cases m)
  case (CreateApplication b)
  have "application_requests (snd (post_applications u b s)) = application_requests s"
    by (auto simp: post_applications_def Let_def split: option.splits)
  with assms CreateApplication show ?thesis by (simp add: requests_wf_def)
next
  case (PatchStage aid st)
  have "application_requests (snd (patch_application_status u aid st s)) = application_requests s"
    by (auto simp: patch_application_status_def Let_def split: option.splits)
  with assms PatchStage show ?thesis by (simp add: requests_wf_def)
next
  case (PutApplication aid b)
  have "application_requests (snd (put_application u aid b s)) = application_requests s"
    by (auto simp: put_application_def Let_def split: option.splits)
  with assms PutApplication show ?thesis by (simp add: requests_wf_def)
next
  case (PatchApplication aid b)
  have "application_requests (snd (patch_application u aid b s)) = application_requests s"
    by (auto simp: patch_application_def Let_def split: option.splits)
  with assms PatchApplication show ?thesis by (simp add: requests_wf_def)
next
  case (SendRequest aid t)
  have "requests_wf (snd (post_application_request u aid t now s))"
    using assms
    by (auto simp: post_application_request_def requests_wf_def list_all_iff split: option.splits)
  with SendRequest show ?thesis by simp
next
  case (RespondToRequest aid t)
  have "requests_wf (snd (patch_request_response u aid t now s))"
    using assms
    by (auto simp: patch_request_response_def requests_wf_def list_all_iff split: option.splits)
  with RespondToRequest show ?thesis by simp
next
  case (CreateOpening b)
  have "application_requests (snd (post_company_openings u b now s)) = application_requests s"
    by (auto simp: post_company_openings_def Let_def split: option.splits)
  with assms CreateOpening show ?thesis by (simp add: requests_wf_def)
next
  case (DeleteOpening oid)
  have "application_requests (snd (delete_company_opening u oid s)) = application_requests s"
    by (auto simp: delete_company_opening_def split: option.splits)
  with assms DeleteOpening show ?thesis by (simp add: requests_wf_def)
next
  case (DeleteUser uid)
  have "set (application_requests (snd (delete_admin_user u uid s))) \<subseteq> set (application_requests s)"
    by (auto simp: delete_admin_user_def delete_student_data_def delete_company_data_def Let_def
        split: option.splits)
  with assms DeleteUser show ?thesis by (auto simp add: requests_wf_def list_all_iff)
qed

lemma requests_wf_other_routes:
  "requests_wf s \<Longrightarrow> requests_wf (snd (post_subscriptions u cid s))"
  "requests_wf s \<Longrightarrow> requests_wf (snd (delete_subscription u c s))"
  "requests_wf s \<Longrightarrow> requests_wf (snd (delete_request cr seg ty rid s))"
  by (auto simp: post_subscriptions_def delete_subscription_def delete_by_type_def requests_wf_def
      delete_request_def authenticated_def delete_student_def delete_company_def
      delete_company_opening_def split: option.splits sum.splits)

end
